theory Spec2Isabelle
  imports Main "HOL-Library.Word" "HOL-Library.Sublist"
begin

unbundle bit_operations_syntax

section \<open>The CRL accessors and the bulk CRL importer of GnuTLS\<close>

text \<open>
  The functions embedded here are the ones of the CRL slice of the source
  (\<open>gnutls_x509_crl_*\<close>). They are written as HOL functions that compute what the C
  functions return and what they leave in their out-parameters. A C function with
  out-parameters returns a tuple of the return code and the new contents of each
  out-parameter; a function that copies through a pointer the caller may have set to
  \<open>NULL\<close> returns an \<open>option\<close>, \<open>None\<close> being the undefined behaviour of a copy through
  \<open>NULL\<close> or past the end of the caller's buffer.
\<close>

subsection \<open>Bytes, buffers and return codes\<close>

type_synonym byte = "8 word"

text \<open>A C string literal as bytes (without the terminating NUL).\<close>

definition bytes_of :: "string \<Rightarrow> byte list" where
  "bytes_of s = map (\<lambda>c. of_nat (of_char c)) s"

text \<open>
  A caller's output buffer: \<open>None\<close> is the \<open>NULL\<close> pointer, \<open>Some bs\<close> a pointer to the
  bytes \<open>bs\<close>. The size the caller announces travels separately (the in/out
  \<open>size_t *\<close>), as in the C interface.
\<close>

type_synonym buffer = "byte list option"

text \<open>
  \<open>memcpy (dst, src, length src)\<close>. Copying no byte leaves every destination as it
  is; copying through \<open>NULL\<close> or past the end of the destination is undefined.
\<close>

definition memcpy :: "buffer \<Rightarrow> byte list \<Rightarrow> buffer option" where
  "memcpy dst src =
     (if src = [] then Some dst
      else case dst of
        None \<Rightarrow> None
      | Some bs \<Rightarrow> if length src \<le> length bs then Some (Some (src @ drop (length src) bs))
                   else None)"


text \<open>
  The caller's sizes are \<open>size_t\<close>, the adapter's lengths are \<open>int\<close>. An accessor that
  hands the caller's size to the adapter assigns it to an \<open>int\<close> first
  (\<open>len = *sizeof_oid\<close>) and assigns the \<open>int\<close> back afterwards (\<open>*sizeof_oid = len\<close>).
  \<open>size_to_int\<close> is the first conversion, to a 32-bit two's complement \<open>int\<close>: a size
  from \<open>2 ^ 31\<close> on does not arrive as it was. \<open>int_to_size\<close> is the second, to a
  \<open>size_t\<close> of 64 bits.
\<close>

definition size_to_int :: "nat \<Rightarrow> int" where
  "size_to_int n = (let r = int n mod 2 ^ 32 in if r < 2 ^ 31 then r else r - 2 ^ 32)"

definition int_to_size :: "int \<Rightarrow> nat" where
  "int_to_size i = nat (i mod 2 ^ 64)"

text \<open>
  Modelled from the spec: the error kinds of section 7, with the values the public
  header gives them (\<open>gnutls.h\<close> is not under src/). The code only compares them with
  each other and with 0.
\<close>

definition GNUTLS_E_MEMORY_ERROR :: int where "GNUTLS_E_MEMORY_ERROR = - 25"
definition GNUTLS_E_BASE64_DECODING_ERROR :: int where "GNUTLS_E_BASE64_DECODING_ERROR = - 34"
definition GNUTLS_E_CERTIFICATE_ERROR :: int where "GNUTLS_E_CERTIFICATE_ERROR = - 43"
definition GNUTLS_E_INVALID_REQUEST :: int where "GNUTLS_E_INVALID_REQUEST = - 50"
definition GNUTLS_E_SHORT_MEMORY_BUFFER :: int where "GNUTLS_E_SHORT_MEMORY_BUFFER = - 51"
definition GNUTLS_E_REQUESTED_DATA_NOT_AVAILABLE :: int where
  "GNUTLS_E_REQUESTED_DATA_NOT_AVAILABLE = - 56"
definition GNUTLS_E_X509_UNSUPPORTED_EXTENSION :: int where
  "GNUTLS_E_X509_UNSUPPORTED_EXTENSION = - 58"
definition GNUTLS_E_ASN1_ELEMENT_NOT_FOUND :: int where "GNUTLS_E_ASN1_ELEMENT_NOT_FOUND = - 67"
definition GNUTLS_E_ASN1_DER_ERROR :: int where "GNUTLS_E_ASN1_DER_ERROR = - 69"
definition GNUTLS_E_ASN1_VALUE_NOT_FOUND :: int where "GNUTLS_E_ASN1_VALUE_NOT_FOUND = - 70"
definition GNUTLS_E_ASN1_GENERIC_ERROR :: int where "GNUTLS_E_ASN1_GENERIC_ERROR = - 71"

text \<open>
  Modelled from the spec: the result codes of the Structure Adapter (\<open>libtasn1.h\<close> is
  not under src/). They are positive numbers; only \<open>ASN1_SUCCESS\<close> is 0.
\<close>

definition ASN1_SUCCESS :: int where "ASN1_SUCCESS = 0"
definition ASN1_ELEMENT_NOT_FOUND :: int where "ASN1_ELEMENT_NOT_FOUND = 2"
definition ASN1_DER_ERROR :: int where "ASN1_DER_ERROR = 4"
definition ASN1_VALUE_NOT_FOUND :: int where "ASN1_VALUE_NOT_FOUND = 5"
definition ASN1_MEM_ERROR :: int where "ASN1_MEM_ERROR = 12"

text \<open>
  Modelled from the spec: \<open>_gnutls_asn2err\<close> (not under src/) translates an adapter
  failure into the library's error; a short adapter buffer is the library's ShortBuffer.
\<close>

definition gnutls_asn2err :: "int \<Rightarrow> int" where
  "gnutls_asn2err asn_err =
     (if asn_err = ASN1_ELEMENT_NOT_FOUND then GNUTLS_E_ASN1_ELEMENT_NOT_FOUND
      else if asn_err = ASN1_DER_ERROR then GNUTLS_E_ASN1_DER_ERROR
      else if asn_err = ASN1_VALUE_NOT_FOUND then GNUTLS_E_ASN1_VALUE_NOT_FOUND
      else if asn_err = ASN1_MEM_ERROR then GNUTLS_E_SHORT_MEMORY_BUFFER
      else GNUTLS_E_ASN1_GENERIC_ERROR)"

subsection \<open>The decoded tree and the adapter's read\<close>

text \<open>
  A node of the decoded tree, as \<open>asn1_read_value\<close> sees it: an INTEGER or OCTET
  STRING holds its content octets; an OBJECT IDENTIFIER holds its dotted-decimal
  string; a BOOLEAN its truth value; a BIT STRING its length in bits and the octets
  that hold them; \<open>ASN1_NO_VALUE\<close> is an element that exists and holds nothing.
\<close>

datatype asn1_node =
    ASN1_OCTETS "byte list"
  | ASN1_OBJECT_ID "byte list"
  | ASN1_BOOLEAN bool
  | ASN1_BIT_STRING nat "byte list"
  | ASN1_NO_VALUE

text \<open>
  Modelled from the spec: the adapter's \<open>read_value\<close> (\<open>asn1_read_value\<close> of libtasn1,
  not under src/), given the node the structural path leads to (\<open>None\<close> when the path
  names no element). The length is an \<open>int\<close>. It is set to what the value needs (for a
  BIT STRING: to its number of bits) and the value is copied only when the announced
  length suffices; strings are copied with their terminating NUL.
\<close>

definition put_value :: "buffer \<Rightarrow> int \<Rightarrow> byte list \<Rightarrow> int \<Rightarrow> (int \<times> buffer \<times> int) option" where
  "put_value v value_size dat new_len =
     (if value_size < int (length dat) then Some (ASN1_MEM_ERROR, v, new_len)
      else case memcpy v dat of
        None \<Rightarrow> None
      | Some v' \<Rightarrow> Some (ASN1_SUCCESS, v', new_len))"

fun asn1_read_value :: "asn1_node option \<Rightarrow> buffer \<Rightarrow> int \<Rightarrow> (int \<times> buffer \<times> int) option" where
  "asn1_read_value None v len = Some (ASN1_ELEMENT_NOT_FOUND, v, len)"
| "asn1_read_value (Some ASN1_NO_VALUE) v len = Some (ASN1_VALUE_NOT_FOUND, v, len)"
| "asn1_read_value (Some (ASN1_OCTETS bs)) v len = put_value v len bs (int (length bs))"
| "asn1_read_value (Some (ASN1_OBJECT_ID s)) v len =
     put_value v len (s @ [0]) (int (length s + 1))"
| "asn1_read_value (Some (ASN1_BOOLEAN b)) v len =
     (let s = bytes_of (if b then ''TRUE'' else ''FALSE'') in
      put_value v len (s @ [0]) (int (length s + 1)))"
| "asn1_read_value (Some (ASN1_BIT_STRING bits bs)) v len = put_value v len bs (int bits)"

text \<open>An entry of \<open>tbsCertList.revokedCertificates\<close> and one of \<open>tbsCertList.crlExtensions\<close>.\<close>

record RevokedCertificate =
  userCertificate :: "byte list"
  revocationDate :: "byte list"

record Extension =
  extnID :: "byte list"
  critical :: bool
  extnValue :: "byte list"

text \<open>
  The tree of one \<open>PKIX1.CertificateList\<close>, with the fields the accessors below read.
  An OPTIONAL field that the encoding leaves out is \<open>None\<close>: the decoder removes it
  from the tree. An absent \<open>crlExtensions\<close> has no entry to find, like an empty one.
\<close>

record CertificateList =
  tbs_version :: "asn1_node option"
  tbs_revokedCertificates :: "RevokedCertificate list option"
  tbs_crlExtensions :: "Extension list"
  signature :: "asn1_node option"

text \<open>The structure behind a handle: \<open>gnutls_x509_crl_int\<close>, which owns one tree.\<close>

record gnutls_x509_crl_int =
  crl :: CertificateList

text \<open>A handle is a pointer to that structure; \<open>None\<close> is \<open>NULL\<close>.\<close>

type_synonym gnutls_x509_crl_t = "gnutls_x509_crl_int option"

text \<open>
  What a structural path of the accessors leads to. The accessors print the index of an
  extension or of a revoked certificate with \<open>%u\<close> from the \<open>int\<close> expression
  \<open>indx + 1\<close>: \<open>ext_number\<close> is that conversion to \<open>unsigned\<close>. The adapter numbers the
  entries of a sequence from 1.
\<close>

definition ext_number :: "int \<Rightarrow> nat" where
  "ext_number indx = nat ((indx + 1) mod 2 ^ 32)"

definition find_extension :: "CertificateList \<Rightarrow> nat \<Rightarrow> Extension option" where
  "find_extension t n =
     (if 1 \<le> n \<and> n \<le> length (tbs_crlExtensions t) then Some (tbs_crlExtensions t ! (n - 1))
      else None)"

definition node_extnID :: "CertificateList \<Rightarrow> nat \<Rightarrow> asn1_node option" where
  "node_extnID t n = map_option (\<lambda>e. ASN1_OBJECT_ID (extnID e)) (find_extension t n)"

definition node_critical :: "CertificateList \<Rightarrow> nat \<Rightarrow> asn1_node option" where
  "node_critical t n = map_option (\<lambda>e. ASN1_BOOLEAN (critical e)) (find_extension t n)"

definition node_extnValue :: "CertificateList \<Rightarrow> nat \<Rightarrow> asn1_node option" where
  "node_extnValue t n = map_option (\<lambda>e. ASN1_OCTETS (extnValue e)) (find_extension t n)"




text \<open>
  Modelled from the spec: the adapter's \<open>count_elements\<close> (\<open>asn1_number_of_elements\<close>,
  not under src/) on \<open>tbsCertList.revokedCertificates\<close>: the number of entries of the
  sequence, or a failure when the tree has no such element.
\<close>

definition asn1_number_of_elements :: "RevokedCertificate list option \<Rightarrow> int \<times> int" where
  "asn1_number_of_elements es =
     (case es of
        None \<Rightarrow> (ASN1_ELEMENT_NOT_FOUND, 0)
      | Some xs \<Rightarrow> (ASN1_SUCCESS, int (length xs)))"

subsection \<open>Scalar accessors\<close>

text \<open>
  \<open>gnutls_x509_crl_get_version\<close>: reads \<open>tbsCertList.version\<close> into a local array of 8
  bytes and returns its first byte plus one. The array is not initialised: its first
  byte is defined only when the read has copied at least one byte.
\<close>

definition gnutls_x509_crl_get_version :: "gnutls_x509_crl_t \<Rightarrow> int option" where
  "gnutls_x509_crl_get_version c =
     (case c of
        None \<Rightarrow> Some GNUTLS_E_INVALID_REQUEST
      | Some h \<Rightarrow>
          (case asn1_read_value (tbs_version (crl h)) (Some (replicate 8 0)) 8 of
             Some (result, Some version, len) \<Rightarrow>
               if result \<noteq> ASN1_SUCCESS then Some (gnutls_asn2err result)
               else if len = 0 then None
               else Some (uint (version ! 0) + 1)
           | _ \<Rightarrow> None))"

text \<open>\<open>gnutls_x509_crl_get_crt_count\<close>.\<close>

definition gnutls_x509_crl_get_crt_count :: "gnutls_x509_crl_t \<Rightarrow> int" where
  "gnutls_x509_crl_get_crt_count c =
     (case c of
        None \<Rightarrow> GNUTLS_E_INVALID_REQUEST
      | Some h \<Rightarrow>
          (case asn1_number_of_elements (tbs_revokedCertificates (crl h)) of
             (result, count) \<Rightarrow> if result \<noteq> ASN1_SUCCESS then 0 else count))"

subsection \<open>Size-negotiated accessors\<close>

text \<open>
  Each returns the return code, the caller's buffer and the caller's size as the call
  leaves them. The caller's size is narrowed to \<open>int\<close> where the source narrows it. The
  lengths that the adapter reports are not negative, and \<open>bits = len\<close> of
  \<open>gnutls_x509_crl_get_signature\<close> takes one as it is.
\<close>


text \<open>
  \<open>gnutls_x509_crl_get_extension_info\<close>. The fourth component is what the call writes
  to \<open>*critical\<close> (\<open>None\<close>: nothing written).
\<close>

definition gnutls_x509_crl_get_extension_info ::
  "gnutls_x509_crl_t \<Rightarrow> int \<Rightarrow> buffer \<Rightarrow> nat \<Rightarrow> (int \<times> buffer \<times> nat \<times> nat option) option" where
  "gnutls_x509_crl_get_extension_info c indx oid sizeof_oid =
     (case c of
        None \<Rightarrow> Some (GNUTLS_E_INVALID_REQUEST, oid, sizeof_oid, None)
      | Some h \<Rightarrow>
          (case asn1_read_value (node_extnID (crl h) (ext_number indx)) oid
                  (size_to_int sizeof_oid) of
             None \<Rightarrow> None
           | Some (result, oid', len) \<Rightarrow>
               if result = ASN1_ELEMENT_NOT_FOUND
               then Some (GNUTLS_E_REQUESTED_DATA_NOT_AVAILABLE, oid', int_to_size len, None)
               else if result \<noteq> ASN1_SUCCESS
               then Some (gnutls_asn2err result, oid', int_to_size len, None)
               else
                 (case asn1_read_value (node_critical (crl h) (ext_number indx))
                         (Some (replicate 10 0)) 10 of
                    Some (result', Some str_critical, len') \<Rightarrow>
                      if result' \<noteq> ASN1_SUCCESS
                      then Some (gnutls_asn2err result', oid', int_to_size len, None)
                      else Some (0, oid', int_to_size len,
                                 Some (if str_critical ! 0 = of_nat (of_char CHR ''T'') then 1 else 0))
                  | _ \<Rightarrow> None)))"

text \<open>
  \<open>gnutls_x509_crl_get_extension_data\<close>. Its second test is \<open>result < 0\<close>, on a result
  code of the adapter.
\<close>

definition gnutls_x509_crl_get_extension_data ::
  "gnutls_x509_crl_t \<Rightarrow> int \<Rightarrow> buffer \<Rightarrow> nat \<Rightarrow> (int \<times> buffer \<times> nat) option" where
  "gnutls_x509_crl_get_extension_data c indx dat sizeof_data =
     (case c of
        None \<Rightarrow> Some (GNUTLS_E_INVALID_REQUEST, dat, sizeof_data)
      | Some h \<Rightarrow>
          (case asn1_read_value (node_extnValue (crl h) (ext_number indx)) dat
                  (size_to_int sizeof_data) of
             None \<Rightarrow> None
           | Some (result, dat', len) \<Rightarrow>
               if result = ASN1_ELEMENT_NOT_FOUND
               then Some (GNUTLS_E_REQUESTED_DATA_NOT_AVAILABLE, dat', int_to_size len)
               else if result < 0 then Some (gnutls_asn2err result, dat', int_to_size len)
               else Some (0, dat', int_to_size len)))"

subsection \<open>Extension lookup by OID and the semantic decoders\<close>

text \<open>
  Modelled from the spec: \<open>_gnutls_x509_crl_get_extension\<close> (not under src/), the
  OID-addressed lookup of section 4.2: search the extensions by OID, skipping the
  occurrences before the given index, and return the raw value and the critical flag,
  or RequestedDataNotAvailable when the search is exhausted.
\<close>

definition gnutls_x509_crl_get_extension ::
  "CertificateList \<Rightarrow> byte list \<Rightarrow> nat \<Rightarrow> int \<times> byte list \<times> nat" where
  "gnutls_x509_crl_get_extension t oid indx =
     (let ms = filter (\<lambda>e. extnID e = oid) (tbs_crlExtensions t) in
      if indx < length ms
      then (0, extnValue (ms ! indx), if critical (ms ! indx) then 1 else 0)
      else (GNUTLS_E_REQUESTED_DATA_NOT_AVAILABLE, [], 0))"

text \<open>The nested tree of one \<open>PKIX1.AuthorityKeyIdentifier\<close>.\<close>

record AuthorityKeyIdentifier =
  keyIdentifier :: "asn1_node option"
  authorityCertIssuer :: "(nat \<times> byte list) list"
  authorityCertSerialNumber :: "asn1_node option"

text \<open>
  The collaborators this core only calls, as section 1 lists them: the adapter's
  element creation and DER decoder for each grammar name used here, the PEM codec, the
  GeneralName parser, the reader of a time and the allocator. Each is a parameter of
  the model. A decoder
  returns the adapter's result code and the tree; the PEM codec returns a negative
  error or the size, and the decoded bytes. The creation of a handle is asked of
  \<open>calloc_ok\<close> and \<open>create_CertificateList\<close> with the number of handles created before.
\<close>

record adapter =
  malloc_ok :: bool
  realloc_ok :: bool
  calloc_ok :: "nat \<Rightarrow> bool"
  create_CertificateList :: "nat \<Rightarrow> int"
  decode_CertificateList :: "byte list \<Rightarrow> int \<times> CertificateList"
  fbase64_decode :: "byte list \<Rightarrow> int \<times> byte list"
  create_AuthorityKeyIdentifier :: int
  decode_AuthorityKeyIdentifier :: "byte list \<Rightarrow> int \<times> AuthorityKeyIdentifier"
  decode_CertificateSerialNumber :: "byte list \<Rightarrow> int \<times> byte list"
  parse_general_name ::
    "AuthorityKeyIdentifier option \<Rightarrow> nat \<Rightarrow> buffer \<Rightarrow> nat \<Rightarrow> (int \<times> buffer \<times> nat \<times> nat) option"
  x509_get_time :: "asn1_node option \<Rightarrow> int"

text \<open>
  The static \<open>_get_authority_key_id\<close>: the return code, the nested tree \<open>*c2\<close> (\<open>None\<close>
  is \<open>ASN1_TYPE_EMPTY\<close>) and what is written to \<open>*critical\<close>.
\<close>

definition get_authority_key_id ::
  "adapter \<Rightarrow> gnutls_x509_crl_t \<Rightarrow> int \<times> AuthorityKeyIdentifier option \<times> nat option" where
  "get_authority_key_id A cert =
     (case cert of
        None \<Rightarrow> (GNUTLS_E_INVALID_REQUEST, None, None)
      | Some h \<Rightarrow>
          (case gnutls_x509_crl_get_extension (crl h) (bytes_of ''2.5.29.35'') 0 of
             (ret, ident, crit) \<Rightarrow>
               if ret < 0 then (ret, None, None)
               else if ident = [] then (GNUTLS_E_REQUESTED_DATA_NOT_AVAILABLE, None, Some crit)
               else if create_AuthorityKeyIdentifier A \<noteq> ASN1_SUCCESS
                 then (gnutls_asn2err (create_AuthorityKeyIdentifier A), None, Some crit)
               else
                 (case decode_AuthorityKeyIdentifier A ident of
                    (ret', t) \<Rightarrow>
                      if ret' \<noteq> ASN1_SUCCESS then (gnutls_asn2err ret', None, Some crit)
                      else (0, Some t, Some crit))))"

text \<open>The node a path of the nested tree leads to; the empty tree has no element.\<close>

definition node_keyIdentifier :: "AuthorityKeyIdentifier option \<Rightarrow> asn1_node option" where
  "node_keyIdentifier c2 = (case c2 of None \<Rightarrow> None | Some t \<Rightarrow> keyIdentifier t)"

definition node_authorityCertSerialNumber ::
  "AuthorityKeyIdentifier option \<Rightarrow> asn1_node option" where
  "node_authorityCertSerialNumber c2 =
     (case c2 of None \<Rightarrow> None | Some t \<Rightarrow> authorityCertSerialNumber t)"

text \<open>
  \<open>gnutls_x509_crl_get_authority_key_id\<close>: return code, \<open>id\<close>, \<open>*id_size\<close>,
  \<open>*critical\<close>.
\<close>

definition gnutls_x509_crl_get_authority_key_id ::
  "adapter \<Rightarrow> gnutls_x509_crl_t \<Rightarrow> buffer \<Rightarrow> nat \<Rightarrow> (int \<times> buffer \<times> nat \<times> nat option) option" where
  "gnutls_x509_crl_get_authority_key_id A c ident id_size =
     (case get_authority_key_id A c of
        (ret, c2, crit) \<Rightarrow>
          if ret < 0 then Some (ret, ident, id_size, crit)
          else
            (case asn1_read_value (node_keyIdentifier c2) ident (size_to_int id_size) of
               None \<Rightarrow> None
             | Some (result, ident', len) \<Rightarrow>
                 if result = ASN1_VALUE_NOT_FOUND \<or> result = ASN1_ELEMENT_NOT_FOUND
                 then Some (GNUTLS_E_X509_UNSUPPORTED_EXTENSION, ident', int_to_size len, crit)
                 else if result \<noteq> ASN1_SUCCESS
                 then Some (gnutls_asn2err result, ident', int_to_size len, crit)
                 else Some (0, ident', int_to_size len, crit)))"

text \<open>
  \<open>gnutls_x509_crl_get_authority_key_gn_serial\<close>: return code, \<open>alt\<close>, \<open>*alt_size\<close>,
  \<open>*alt_type\<close>, \<open>serial\<close>, \<open>*serial_size\<close>, \<open>*critical\<close>.
\<close>

definition gnutls_x509_crl_get_authority_key_gn_serial ::
  "adapter \<Rightarrow> gnutls_x509_crl_t \<Rightarrow> nat \<Rightarrow> buffer \<Rightarrow> nat \<Rightarrow> buffer \<Rightarrow> nat \<Rightarrow>
     (int \<times> buffer \<times> nat \<times> nat option \<times> buffer \<times> nat \<times> nat option) option" where
  "gnutls_x509_crl_get_authority_key_gn_serial A c seq alt alt_size serial serial_size =
     (case get_authority_key_id A c of
        (ret, c2, crit) \<Rightarrow>
          if ret < 0 then Some (ret, alt, alt_size, None, serial, serial_size, crit)
          else
            (case parse_general_name A c2 seq alt alt_size of
               None \<Rightarrow> None
             | Some (ret', alt', alt_size', alt_type) \<Rightarrow>
                 if ret' < 0
                 then Some (ret', alt', alt_size', Some alt_type, serial, serial_size, crit)
                 else if serial = None
                 then Some (0, alt', alt_size', Some alt_type, serial, serial_size, crit)
                 else
                   (case asn1_read_value (node_authorityCertSerialNumber c2) serial
                           (size_to_int serial_size) of
                      None \<Rightarrow> None
                    | Some (result, serial', len) \<Rightarrow>
                        if result < 0
                        then Some (gnutls_asn2err result, alt', alt_size', Some alt_type,
                                   serial', int_to_size len, crit)
                        else Some (0, alt', alt_size', Some alt_type, serial', int_to_size len,
                                   crit))))"




subsection \<open>Handles in memory\<close>

text \<open>
  The bulk importer creates and destroys handles, so it runs on an explicit memory: the
  live handles with their addresses, in the order of their creation; the number of
  creations asked so far, which also gives the next address; the addresses handed to
  \<open>gnutls_free\<close> that were not live (a handle freed twice); and a record of the calls of
  the fixed-capacity importer with the number of slots of the array, the capacity and
  the flags each received, kept for the statements about how the auto-growing importer
  calls it.
\<close>

type_synonym crl_ptr = "nat option"

record memory =
  heap :: "(nat \<times> gnutls_x509_crl_int) list"
  inits :: nat
  bad_frees :: "nat list"
  import_calls :: "(nat \<times> nat \<times> 32 word) list"

text \<open>The tree of a created element that nothing was decoded into.\<close>

definition empty_CertificateList :: CertificateList where
  "empty_CertificateList =
     \<lparr>tbs_version = Some ASN1_NO_VALUE, tbs_revokedCertificates = Some [],
      tbs_crlExtensions = [], signature = Some ASN1_NO_VALUE\<rparr>"

text \<open>
  \<open>gnutls_x509_crl_init\<close>: the return code, the pointer left in \<open>*crl\<close> and the memory.
  When the element cannot be created the structure is freed and \<open>*crl\<close> keeps its
  address.
\<close>

definition gnutls_x509_crl_init :: "adapter \<Rightarrow> memory \<Rightarrow> int \<times> crl_ptr \<times> memory" where
  "gnutls_x509_crl_init A m =
     (let n = inits m; m' = m\<lparr>inits := Suc n\<rparr> in
      if \<not> calloc_ok A n then (GNUTLS_E_MEMORY_ERROR, None, m')
      else if create_CertificateList A n \<noteq> ASN1_SUCCESS
        then (gnutls_asn2err (create_CertificateList A n), Some n, m')
      else (0, Some n, m'\<lparr>heap := heap m' @ [(n, \<lparr>crl = empty_CertificateList\<rparr>)]\<rparr>))"

text \<open>\<open>gnutls_x509_crl_deinit\<close>: nothing for \<open>NULL\<close>, else the structure is freed.\<close>

definition gnutls_x509_crl_deinit :: "memory \<Rightarrow> crl_ptr \<Rightarrow> memory" where
  "gnutls_x509_crl_deinit m p =
     (case p of
        None \<Rightarrow> m
      | Some a \<Rightarrow>
          if a \<in> set (map fst (heap m)) then m\<lparr>heap := filter (\<lambda>(b, h). b \<noteq> a) (heap m)\<rparr>
          else m\<lparr>bad_frees := bad_frees m @ [a]\<rparr>)"

datatype gnutls_x509_crt_fmt_t = GNUTLS_X509_FMT_DER | GNUTLS_X509_FMT_PEM

text \<open>\<open>gnutls_x509_crl_import\<close>: the return code and the memory.\<close>

definition gnutls_x509_crl_import ::
  "adapter \<Rightarrow> memory \<Rightarrow> crl_ptr \<Rightarrow> byte list \<Rightarrow> gnutls_x509_crt_fmt_t \<Rightarrow> int \<times> memory" where
  "gnutls_x509_crl_import A m c dat format =
     (case c of
        None \<Rightarrow> (GNUTLS_E_INVALID_REQUEST, m)
      | Some a \<Rightarrow>
          (case (if format = GNUTLS_X509_FMT_PEM then fbase64_decode A dat else (0, dat)) of
             (result, der) \<Rightarrow>
               if result < 0 then (result, m)
               else
                 (case decode_CertificateList A der of
                    (result', t) \<Rightarrow>
                      if result' \<noteq> ASN1_SUCCESS then (gnutls_asn2err result', m)
                      else (0, m\<lparr>heap := map (\<lambda>(b, h). if b = a then (b, h\<lparr>crl := t\<rparr>) else (b, h))
                                              (heap m)\<rparr>))))"

subsection \<open>The bulk list importer\<close>

text \<open>
  Modelled from the spec: the PEM boundary marker \<open>PEM_CRL_SEP\<close> of X509 CRL blocks and
  the strict flag (their headers are not under src/).
\<close>

definition PEM_CRL_SEP :: "byte list" where
  "PEM_CRL_SEP = bytes_of ''-----BEGIN X509 CRL''"

definition GNUTLS_X509_CRT_LIST_IMPORT_FAIL_IF_EXCEED :: "32 word" where
  "GNUTLS_X509_CRT_LIST_IMPORT_FAIL_IF_EXCEED = 1"

text \<open>\<open>memmem\<close>: the offset of the first occurrence of the needle, if there is one.\<close>

fun memmem :: "byte list \<Rightarrow> byte list \<Rightarrow> nat option" where
  "memmem [] needle = (if needle = [] then Some 0 else None)"
| "memmem (h # hs) needle =
     (if prefix needle (h # hs) then Some 0 else map_option Suc (memmem hs needle))"

text \<open>
  The body of \<open>if (!nocopy)\<close> in the loop of the PEM scan: a handle is created in
  \<open>crls[count]\<close> and the bytes from \<open>ptr\<close> to the end of the input are imported into
  it. \<open>Inl\<close> is \<open>goto error\<close> with \<open>ret\<close>. The caller's array has at least \<open>*crl_max\<close>
  slots, so \<open>crls[count]\<close> is in range here and the handle read back from it is the one
  just written.
\<close>

definition copy_block ::
  "adapter \<Rightarrow> crl_ptr list \<Rightarrow> nat \<Rightarrow> byte list \<Rightarrow> memory \<Rightarrow>
     (int \<times> crl_ptr list \<times> memory) + (crl_ptr list \<times> memory)" where
  "copy_block A crls count rest m =
     (case gnutls_x509_crl_init A m of
        (ret, p, m1) \<Rightarrow>
          if ret < 0 then Inl (ret, crls[count := p], m1)
          else
            (case gnutls_x509_crl_import A m1 p rest GNUTLS_X509_FMT_PEM of
               (ret', m2) \<Rightarrow>
                 if ret' < 0 then Inl (ret', crls[count := p], m2)
                 else Inr (crls[count := p], m2)))"

text \<open>
  The end of the loop body: \<open>ptr++\<close>, then the search of the next marker in what is
  left, if anything is left. The result is the input from the next marker on.
\<close>

definition next_block :: "byte list \<Rightarrow> byte list option" where
  "next_block rest =
     (if length (tl rest) > 0
      then map_option (\<lambda>k. drop k (tl rest)) (memmem (tl rest) PEM_CRL_SEP)
      else None)"

text \<open>
  The \<open>do ... while\<close> loop of the PEM scan, on the bytes from \<open>ptr\<close> to the end of the
  input. It ends by falling out of the loop (with the count, \<open>nocopy\<close>, the array and the
  memory) or by \<open>goto error\<close> (with \<open>ret\<close> and the same).
\<close>

datatype loop_exit =
    Loop_done nat bool "crl_ptr list" memory
  | Loop_error int nat "crl_ptr list" memory

function pem_loop ::
  "adapter \<Rightarrow> 32 word \<Rightarrow> nat \<Rightarrow> byte list \<Rightarrow> nat \<Rightarrow> bool \<Rightarrow> crl_ptr list \<Rightarrow> memory \<Rightarrow> loop_exit" where
  "pem_loop A flags crl_max rest count nocopy crls m =
     (if count \<ge> crl_max \<and> flags AND GNUTLS_X509_CRT_LIST_IMPORT_FAIL_IF_EXCEED = 0
      then Loop_done count nocopy crls m
      else
        let nocopy' = (nocopy \<or> count \<ge> crl_max) in
        case (if \<not> nocopy' then copy_block A crls count rest m else Inr (crls, m)) of
          Inl (ret, crls', m') \<Rightarrow> Loop_error ret count crls' m'
        | Inr (crls', m') \<Rightarrow>
            (case next_block rest of
               None \<Rightarrow> Loop_done (Suc count) nocopy' crls' m'
             | Some rest' \<Rightarrow> pem_loop A flags crl_max rest' (Suc count) nocopy' crls' m'))"
  by pat_completeness auto
termination
  by (relation "measure (\<lambda>(A, flags, crl_max, rest, count, nocopy, crls, m). length rest)")
     (auto simp: next_block_def split: if_splits)

text \<open>The \<open>error:\<close> label: the handles \<open>crls[0 .. count - 1]\<close> are deinitialised.\<close>

definition deinit_all :: "memory \<Rightarrow> crl_ptr list \<Rightarrow> nat \<Rightarrow> memory" where
  "deinit_all m crls count = foldl gnutls_x509_crl_deinit m (take count crls)"

text \<open>
  \<open>gnutls_x509_crl_list_import\<close>: the return code, the array, \<open>*crl_max\<close> and the memory.
\<close>

definition gnutls_x509_crl_list_import ::
  "adapter \<Rightarrow> memory \<Rightarrow> crl_ptr list \<Rightarrow> nat \<Rightarrow> byte list \<Rightarrow> gnutls_x509_crt_fmt_t \<Rightarrow> 32 word \<Rightarrow>
     int \<times> crl_ptr list \<times> nat \<times> memory" where
  "gnutls_x509_crl_list_import A m0 crls crl_max dat format flags =
     (let m = m0\<lparr>import_calls := import_calls m0 @ [(length crls, crl_max, flags)]\<rparr> in
      if format = GNUTLS_X509_FMT_DER then
        if crl_max < 1 then (GNUTLS_E_SHORT_MEMORY_BUFFER, crls, 1, m)
        else
          (case gnutls_x509_crl_init A m of
             (ret, p, m1) \<Rightarrow>
               if ret < 0 then (ret, crls[0 := p], crl_max, deinit_all m1 (crls[0 := p]) 1)
               else
                 (case gnutls_x509_crl_import A m1 p dat format of
                    (ret', m2) \<Rightarrow>
                      if ret' < 0
                      then (ret', crls[0 := p], crl_max, deinit_all m2 (crls[0 := p]) 1)
                      else (1, crls[0 := p], 1, m2)))
      else
        (case memmem dat PEM_CRL_SEP of
           None \<Rightarrow> (GNUTLS_E_BASE64_DECODING_ERROR, crls, crl_max, m)
         | Some k \<Rightarrow>
             (case pem_loop A flags crl_max (drop k dat) 0 False crls m of
                Loop_done count nocopy crls' m' \<Rightarrow>
                  (if \<not> nocopy then int count else GNUTLS_E_SHORT_MEMORY_BUFFER, crls', count, m')
              | Loop_error ret count crls' m' \<Rightarrow>
                  (ret, crls', crl_max, deinit_all m' crls' count))))"

text \<open>
  \<open>gnutls_x509_crl_list_import2\<close>: the return code, \<open>*crls\<close> (\<open>None\<close> is \<open>NULL\<close>), what is
  written to \<open>*size\<close>, and the memory. The slots of a fresh array hold no handle.
\<close>

definition gnutls_x509_crl_list_import2 ::
  "adapter \<Rightarrow> memory \<Rightarrow> byte list \<Rightarrow> gnutls_x509_crt_fmt_t \<Rightarrow> 32 word \<Rightarrow>
     int \<times> crl_ptr list option \<times> nat option \<times> memory" where
  "gnutls_x509_crl_list_import2 A m dat format flags =
     (if \<not> malloc_ok A then (GNUTLS_E_MEMORY_ERROR, None, None, m)
      else
        (case gnutls_x509_crl_list_import A m (replicate 1024 None) 1024 dat format
                GNUTLS_X509_CRT_LIST_IMPORT_FAIL_IF_EXCEED of
           (ret, crls, init, m1) \<Rightarrow>
             if ret = GNUTLS_E_SHORT_MEMORY_BUFFER then
               if \<not> realloc_ok A then (GNUTLS_E_MEMORY_ERROR, None, None, m1)
               else
                 (case gnutls_x509_crl_list_import A m1
                         (take init crls @ replicate (init - length crls) None) init dat format
                         flags of
                    (ret', crls', init', m2) \<Rightarrow>
                      if ret' < 0 then (ret', None, None, m2)
                      else (0, Some crls', Some init', m2))
             else if ret < 0 then (ret, None, None, m1)
             else (0, Some crls, Some init, m1)))"

subsection \<open>Notions the statements use\<close>

text \<open>
  The integer that the content octets of a DER INTEGER encode: big-endian, two's
  complement.
\<close>

definition der_integer :: "byte list \<Rightarrow> int" where
  "der_integer bs =
     (let u = foldl (\<lambda>a b. a * 256 + uint b) 0 bs in
      if bs \<noteq> [] \<and> uint (hd bs) \<ge> 128 then u - 2 ^ (8 * length bs) else u)"


text \<open>
  A small decoded CRL for the examples: version 2 (encoded 1), one revoked certificate,
  an Authority Key Identifier and a CRL Number extension, and a signature of 16 bits.
\<close>

definition sample_crl :: gnutls_x509_crl_int where
  "sample_crl =
     \<lparr>crl = \<lparr>tbs_version = Some (ASN1_OCTETS [1]),
             tbs_revokedCertificates =
               Some [\<lparr>userCertificate = [0x12, 0x34],
                      revocationDate = bytes_of ''120506162058Z''\<rparr>],
             tbs_crlExtensions =
               [\<lparr>extnID = bytes_of ''2.5.29.35'', critical = False,
                 extnValue = [0x30, 0x03, 0x80, 0x01, 0x07]\<rparr>,
                \<lparr>extnID = bytes_of ''2.5.29.20'', critical = False,
                 extnValue = [0x02, 0x02, 0x01, 0x05]\<rparr>],
             signature = Some (ASN1_BIT_STRING 16 [0xAB, 0xCD])\<rparr>\<rparr>"

text \<open>
  The same CRL with one extension only: a critical Authority Key Identifier in the
  GeneralName and serial form, which names the issuer \<open>a.b\<close> (a dNSName) and the serial
  number 9, and has no \<open>keyIdentifier\<close>.
\<close>

definition sample_crl_gn_serial :: gnutls_x509_crl_int where
  "sample_crl_gn_serial =
     sample_crl\<lparr>crl := (crl sample_crl)
       \<lparr>tbs_crlExtensions :=
          [\<lparr>extnID = bytes_of ''2.5.29.35'', critical = True,
            extnValue = [0x30, 0x0A, 0xA1, 0x05, 0x82, 0x03, 0x61, 0x2E, 0x62,
                         0x82, 0x01, 0x09]\<rparr>]\<rparr>\<rparr>"

text \<open>A buffer of \<open>2 ^ 31\<close> bytes: the least size that does not fit an \<open>int\<close>.\<close>

definition big_buffer :: "byte list" where
  "big_buffer = replicate (2 ^ 31) 0"

text \<open>The Authority Key Identifier extensions of a handle's tree, in their order.\<close>

definition aki_extensions :: "gnutls_x509_crl_int \<Rightarrow> Extension list" where
  "aki_extensions h = filter (\<lambda>e. extnID e = bytes_of ''2.5.29.35'') (tbs_crlExtensions (crl h))"


text \<open>
  Collaborators for the examples. Memory never runs out. A PEM block is the boundary
  marker followed by one payload byte, which stands for the DER bytes of the block; the
  payload \<open>0x30\<close> alone decodes, to the tree of \<open>sample_crl\<close>. The nested decoders know
  the extension values of the examples: a key identifier of one octet, the GeneralName
  and serial form of \<open>sample_crl_gn_serial\<close>, and an integer in its shortest definite
  form. The GeneralName parser copies the name of the given sequence number out by
  size negotiation and returns its type (1 for a dNSName); the time reader returns
  \<open>- 1\<close> where there is no time.
\<close>

definition sample_adapter :: adapter where
  "sample_adapter =
     \<lparr>malloc_ok = True, realloc_ok = True, calloc_ok = (\<lambda>n. True),
      create_CertificateList = (\<lambda>n. ASN1_SUCCESS),
      decode_CertificateList =
        (\<lambda>d. if d = [0x30] then (ASN1_SUCCESS, crl sample_crl)
             else (ASN1_DER_ERROR, empty_CertificateList)),
      fbase64_decode =
        (\<lambda>d. if prefix PEM_CRL_SEP d \<and> length PEM_CRL_SEP < length d
             then (1, [d ! length PEM_CRL_SEP])
             else (GNUTLS_E_BASE64_DECODING_ERROR, [])),
      create_AuthorityKeyIdentifier = ASN1_SUCCESS,
      decode_AuthorityKeyIdentifier =
        (\<lambda>d. if d = [0x30, 0x03, 0x80, 0x01, 0x07]
             then (ASN1_SUCCESS,
                   \<lparr>keyIdentifier = Some (ASN1_OCTETS [0x07]), authorityCertIssuer = [],
                    authorityCertSerialNumber = None\<rparr>)
             else if d = [0x30, 0x0A, 0xA1, 0x05, 0x82, 0x03, 0x61, 0x2E, 0x62, 0x82, 0x01, 0x09]
             then (ASN1_SUCCESS,
                   \<lparr>keyIdentifier = None, authorityCertIssuer = [(1, bytes_of ''a.b'')],
                    authorityCertSerialNumber = Some (ASN1_OCTETS [0x09])\<rparr>)
             else (ASN1_DER_ERROR,
                   \<lparr>keyIdentifier = None, authorityCertIssuer = [],
                    authorityCertSerialNumber = None\<rparr>)),
      decode_CertificateSerialNumber =
        (\<lambda>d. case d of
               t # l # octets \<Rightarrow>
                 if t = 0x02 \<and> octets \<noteq> [] \<and> unat l = length octets then (ASN1_SUCCESS, octets)
                 else (ASN1_DER_ERROR, [])
             | _ \<Rightarrow> (ASN1_DER_ERROR, [])),
      parse_general_name =
        (\<lambda>c2 seq alt alt_size.
           case c2 of
             None \<Rightarrow> Some (GNUTLS_E_REQUESTED_DATA_NOT_AVAILABLE, alt, alt_size, 0)
           | Some t \<Rightarrow>
               if length (authorityCertIssuer t) \<le> seq
               then Some (GNUTLS_E_REQUESTED_DATA_NOT_AVAILABLE, alt, alt_size, 0)
               else
                 (case authorityCertIssuer t ! seq of
                    (ty, name) \<Rightarrow>
                      if alt_size < length name
                      then Some (GNUTLS_E_SHORT_MEMORY_BUFFER, alt, length name, 0)
                      else map_option (\<lambda>alt'. (int ty, alt', length name, ty))
                             (memcpy alt name))),
      x509_get_time = (\<lambda>node. if node = None then - 1 else 1336321258)\<rparr>"

text \<open>A memory with no handle, where nothing has been created or called yet.\<close>

definition empty_memory :: memory where
  "empty_memory = \<lparr>heap = [], inits = 0, bad_frees = [], import_calls = []\<rparr>"

text \<open>
  The addresses of the live handles are those of earlier creations, so that the next
  creation yields a fresh address.
\<close>

definition wf_memory :: "memory \<Rightarrow> bool" where
  "wf_memory m = list_all (\<lambda>a. a < inits m) (map fst (heap m))"

text \<open>
  For the examples: a PEM input of \<open>n\<close> blocks, each the boundary marker followed by
  the payload byte that decodes.
\<close>

definition pem_blocks :: "nat \<Rightarrow> byte list" where
  "pem_blocks n = concat (replicate n (PEM_CRL_SEP @ [0x30]))"

text \<open>The memory a loop exit carries.\<close>

fun loop_memory :: "loop_exit \<Rightarrow> memory" where
  "loop_memory (Loop_done count nocopy crls m) = m"
| "loop_memory (Loop_error ret count crls m) = m"


section \<open>Properties\<close>

subsection \<open>Return codes\<close>

lemmas gnutls_error_defs =
  GNUTLS_E_MEMORY_ERROR_def GNUTLS_E_BASE64_DECODING_ERROR_def GNUTLS_E_CERTIFICATE_ERROR_def
  GNUTLS_E_INVALID_REQUEST_def GNUTLS_E_SHORT_MEMORY_BUFFER_def
  GNUTLS_E_REQUESTED_DATA_NOT_AVAILABLE_def GNUTLS_E_X509_UNSUPPORTED_EXTENSION_def
  GNUTLS_E_ASN1_ELEMENT_NOT_FOUND_def GNUTLS_E_ASN1_DER_ERROR_def
  GNUTLS_E_ASN1_VALUE_NOT_FOUND_def GNUTLS_E_ASN1_GENERIC_ERROR_def

lemmas asn1_error_defs =
  ASN1_SUCCESS_def ASN1_ELEMENT_NOT_FOUND_def ASN1_DER_ERROR_def ASN1_VALUE_NOT_FOUND_def
  ASN1_MEM_ERROR_def

lemma gnutls_asn2err_negative: "gnutls_asn2err e < 0"
  by (simp add: gnutls_asn2err_def gnutls_error_defs)

subsection \<open>Sizes and the adapter's read\<close>

text \<open>
  A size below \<open>2 ^ 31\<close> goes through the narrowing to \<open>int\<close> and back unchanged; the size
  \<open>2 ^ 31\<close> arrives at the adapter as a negative length.
\<close>

lemma size_to_int_small: "n < 2 ^ 31 \<Longrightarrow> size_to_int n = int n"
  by (simp add: size_to_int_def Let_def)

lemma int_to_size_int: "k < 2 ^ 64 \<Longrightarrow> int_to_size (int k) = k"
  by (simp add: int_to_size_def)

lemma size_round_trip: "n < 2 ^ 31 \<Longrightarrow> int_to_size (size_to_int n) = n"
  by (simp add: size_to_int_small int_to_size_int)

lemma size_round_trip_big: "int_to_size (size_to_int (2 ^ 31)) = 2 ^ 64 - 2 ^ 31"
  by (simp add: size_to_int_def int_to_size_def Let_def)

text \<open>
  What the adapter's read does with a value of \<open>L\<close> bytes: a size below \<open>L\<close> gives
  \<open>ASN1_MEM_ERROR\<close> with the length \<open>L\<close> and an untouched buffer; a size that the buffer
  holds gives the value at the front of the buffer.
\<close>

lemma put_value_short:
  "L < 2 ^ 31 \<Longrightarrow> n < L \<Longrightarrow> length dat = L \<Longrightarrow>
   put_value v (size_to_int n) dat (int L) = Some (ASN1_MEM_ERROR, v, int L)"
  by (simp add: put_value_def size_to_int_small)

lemma put_value_filled:
  "length dat \<le> n \<Longrightarrow> n \<le> length buf \<Longrightarrow> n < 2 ^ 31 \<Longrightarrow>
   put_value (Some buf) (size_to_int n) dat (int (length dat)) =
     Some (ASN1_SUCCESS, Some (dat @ drop (length dat) buf), int (length dat))"
  by (simp add: put_value_def size_to_int_small memcpy_def)

text \<open>Facts about the examples.\<close>

lemma sample_extensions:
  "tbs_crlExtensions (crl sample_crl) =
     [\<lparr>extnID = bytes_of ''2.5.29.35'', critical = False,
       extnValue = [0x30, 0x03, 0x80, 0x01, 0x07]\<rparr>,
      \<lparr>extnID = bytes_of ''2.5.29.20'', critical = False,
       extnValue = [0x02, 0x02, 0x01, 0x05]\<rparr>]"
  by (simp add: sample_crl_def)

lemma length_big_buffer: "length big_buffer = 2 ^ 31"
  by (simp add: big_buffer_def)

lemma index_ranges:
  "(0::int) \<le> 0" "(0::int) < 2 ^ 31 - 1" "(0::int) \<le> 1" "(1::int) < 2 ^ 31 - 1"
  "(0::int) \<le> 2" "(2::int) < 2 ^ 31 - 1"
  by simp_all

subsection \<open>Version\<close>

lemma get_version_first_octet:
  assumes "tbs_version (crl h) = Some (ASN1_OCTETS bs)" and "bs \<noteq> []" and "length bs \<le> 8"
  shows "gnutls_x509_crl_get_version (Some h) = Some (uint (hd bs) + 1)"
proof -
  obtain b bs' where bs: "bs = b # bs'"
    using assms(2) by (cases bs) auto
  show ?thesis
    using assms bs
    by (simp add: gnutls_x509_crl_get_version_def put_value_def memcpy_def asn1_error_defs)
qed

lemma get_version_absent:
  assumes "tbs_version (crl h) = None"
  shows "gnutls_x509_crl_get_version (Some h) = Some GNUTLS_E_ASN1_ELEMENT_NOT_FOUND"
  using assms
  by (simp add: gnutls_x509_crl_get_version_def asn1_error_defs gnutls_asn2err_def)

text \<open>
  C7: for every imported handle \<open>gnutls_x509_crl_get_version\<close> is to return the encoded
  version integer plus one. The code returns the first content octet plus one (lemma
  \<open>get_version_first_octet\<close>), and an error when the version field is absent (lemma
  \<open>get_version_absent\<close>), so it departs from the claim on two inputs. On the version
  octets 01 00, which encode 256, it returns 2 and not 257. On a CRL without version
  field, as every version 1 CRL is, it returns \<open>GNUTLS_E_ASN1_ELEMENT_NOT_FOUND\<close>, a
  negative number, and no version. On the sample CRL, whose version field holds 1, it
  returns 2, as the claim says.
\<close>

theorem get_version_first_octet_only:
  "gnutls_x509_crl_get_version
     (Some (sample_crl\<lparr>crl := (crl sample_crl)\<lparr>tbs_version := Some (ASN1_OCTETS [1, 0])\<rparr>\<rparr>))
     = Some 2 \<and>
   der_integer [1, 0] + 1 = 257 \<and>
   gnutls_x509_crl_get_version
     (Some (sample_crl\<lparr>crl := (crl sample_crl)\<lparr>tbs_version := None\<rparr>\<rparr>))
     = Some GNUTLS_E_ASN1_ELEMENT_NOT_FOUND \<and>
   GNUTLS_E_ASN1_ELEMENT_NOT_FOUND < 0 \<and>
   tbs_version (crl sample_crl) = Some (ASN1_OCTETS [1]) \<and> der_integer [1] + 1 = 2 \<and>
   gnutls_x509_crl_get_version (Some sample_crl) = Some 2"
  by (simp add: gnutls_x509_crl_get_version_def put_value_def memcpy_def asn1_error_defs
        der_integer_def gnutls_asn2err_def gnutls_error_defs sample_crl_def)

subsection \<open>Revoked-entry count\<close>

text \<open>
  C9: on a handle whose \<open>revokedCertificates\<close> sequence is absent or empty
  \<open>gnutls_x509_crl_get_crt_count\<close> returns 0, not an error; when the sequence is
  present it returns the number of its entries.
\<close>

theorem get_crt_count_entries:
  "(tbs_revokedCertificates (crl h) = None \<or> tbs_revokedCertificates (crl h) = Some []
      \<longrightarrow> gnutls_x509_crl_get_crt_count (Some h) = 0) \<and>
   (tbs_revokedCertificates (crl h) = Some es
      \<longrightarrow> gnutls_x509_crl_get_crt_count (Some h) = int (length es))"
  by (auto simp add: gnutls_x509_crl_get_crt_count_def asn1_number_of_elements_def
        asn1_error_defs)

theorem get_crt_count_entries_witness:
  "gnutls_x509_crl_get_crt_count (Some sample_crl) = 1 \<and>
   gnutls_x509_crl_get_crt_count
     (Some (sample_crl\<lparr>crl := (crl sample_crl)\<lparr>tbs_revokedCertificates := None\<rparr>\<rparr>)) = 0"
  using get_crt_count_entries
          [of sample_crl "the (tbs_revokedCertificates (crl sample_crl))"]
        get_crt_count_entries
          [of "sample_crl\<lparr>crl := (crl sample_crl)\<lparr>tbs_revokedCertificates := None\<rparr>\<rparr>" "[]"]
  by (simp add: sample_crl_def)

subsection \<open>Signature\<close>



subsection \<open>Enumerating the extensions\<close>

lemma ext_number_in_range:
  "0 \<le> indx \<Longrightarrow> indx < 2 ^ 31 - 1 \<Longrightarrow> ext_number indx = Suc (nat indx)"
  by (simp add: ext_number_def nat_add_distrib)

lemma find_extension_below:
  "0 \<le> indx \<Longrightarrow> indx < 2 ^ 31 - 1 \<Longrightarrow> indx < int (length (tbs_crlExtensions t)) \<Longrightarrow>
   find_extension t (ext_number indx) = Some (tbs_crlExtensions t ! nat indx)"
  by (simp add: ext_number_in_range find_extension_def)

lemma find_extension_beyond:
  "indx < 2 ^ 31 - 1 \<Longrightarrow> int (length (tbs_crlExtensions t)) \<le> indx \<Longrightarrow>
   find_extension t (ext_number indx) = None"
  by (simp add: ext_number_in_range find_extension_def)

lemma read_critical:
  "asn1_read_value (Some (ASN1_BOOLEAN b)) (Some (replicate 10 0)) 10 =
     Some (ASN1_SUCCESS,
           Some (bytes_of (if b then ''TRUE'' else ''FALSE'') @ [0] @
                 replicate (if b then 5 else 4) 0),
           if b then 5 else 6)"
  by (simp add: put_value_def memcpy_def bytes_of_def numeral_eq_Suc)

lemma info_below_not_exhausted:
  assumes "0 \<le> indx" and "indx < 2 ^ 31 - 1"
    and "indx < int (length (tbs_crlExtensions (crl h)))"
    and "gnutls_x509_crl_get_extension_info (Some h) indx oid n = Some r"
  shows "fst r = 0 \<or> fst r = GNUTLS_E_SHORT_MEMORY_BUFFER"
proof -
  let ?e = "tbs_crlExtensions (crl h) ! nat indx"
  have f: "find_extension (crl h) (ext_number indx) = Some ?e"
    using assms by (simp add: find_extension_below)
  show ?thesis
    using assms(4) unfolding gnutls_x509_crl_get_extension_info_def
    by (auto simp add: f node_extnID_def node_critical_def read_critical put_value_def
          asn1_error_defs gnutls_asn2err_def simp del: asn1_read_value.simps(5)
          split: option.splits if_splits)
qed

lemma data_below_not_exhausted:
  assumes "0 \<le> indx" and "indx < 2 ^ 31 - 1"
    and "indx < int (length (tbs_crlExtensions (crl h)))"
    and "gnutls_x509_crl_get_extension_data (Some h) indx dat n = Some r"
  shows "fst r = 0"
proof -
  let ?e = "tbs_crlExtensions (crl h) ! nat indx"
  have f: "find_extension (crl h) (ext_number indx) = Some ?e"
    using assms by (simp add: find_extension_below)
  show ?thesis
    using assms(4) unfolding gnutls_x509_crl_get_extension_data_def
    by (auto simp add: f node_extnValue_def put_value_def asn1_error_defs gnutls_asn2err_def
          split: option.splits if_splits)
qed

lemma get_extension_info_short:
  assumes "0 \<le> indx" and "indx < 2 ^ 31 - 1"
    and "indx < int (length (tbs_crlExtensions (crl h)))"
    and "length (extnID (tbs_crlExtensions (crl h) ! nat indx)) + 1 < 2 ^ 31"
    and "n < length (extnID (tbs_crlExtensions (crl h) ! nat indx)) + 1"
  shows "gnutls_x509_crl_get_extension_info (Some h) indx oid n =
           Some (GNUTLS_E_SHORT_MEMORY_BUFFER, oid,
                 length (extnID (tbs_crlExtensions (crl h) ! nat indx)) + 1, None)"
proof -
  let ?e = "tbs_crlExtensions (crl h) ! nat indx"
  have f: "find_extension (crl h) (ext_number indx) = Some ?e"
    using assms by (simp add: find_extension_below)
  have r: "asn1_read_value (Some (ASN1_OBJECT_ID (extnID ?e))) oid (size_to_int n) =
             Some (ASN1_MEM_ERROR, oid, int (length (extnID ?e) + 1))"
    using put_value_short [of "length (extnID ?e) + 1" n "extnID ?e @ [0]" oid] assms(4,5)
    by simp
  have b: "int_to_size (int (Suc (length (extnID ?e)))) = Suc (length (extnID ?e))"
    using assms(4) by (intro int_to_size_int) simp
  show ?thesis
    unfolding gnutls_x509_crl_get_extension_info_def
    by (simp add: f r b node_extnID_def asn1_error_defs gnutls_asn2err_def gnutls_error_defs
          del: asn1_read_value.simps of_nat_add of_nat_Suc)
qed

lemma get_extension_info_filled:
  assumes "0 \<le> indx" and "indx < 2 ^ 31 - 1"
    and "indx < int (length (tbs_crlExtensions (crl h)))"
    and "length (extnID (tbs_crlExtensions (crl h) ! nat indx)) + 1 \<le> n"
    and "n \<le> length buf" and "n < 2 ^ 31"
  shows "gnutls_x509_crl_get_extension_info (Some h) indx (Some buf) n =
           Some (0,
                 Some (extnID (tbs_crlExtensions (crl h) ! nat indx) @ [0] @
                       drop (length (extnID (tbs_crlExtensions (crl h) ! nat indx)) + 1) buf),
                 length (extnID (tbs_crlExtensions (crl h) ! nat indx)) + 1,
                 Some (if critical (tbs_crlExtensions (crl h) ! nat indx) then 1 else 0))"
proof -
  let ?e = "tbs_crlExtensions (crl h) ! nat indx"
  have f: "find_extension (crl h) (ext_number indx) = Some ?e"
    using assms by (simp add: find_extension_below)
  have r: "asn1_read_value (Some (ASN1_OBJECT_ID (extnID ?e))) (Some buf) (size_to_int n) =
             Some (ASN1_SUCCESS, Some (extnID ?e @ [0] @ drop (length (extnID ?e) + 1) buf),
                   int (length (extnID ?e) + 1))"
    using put_value_filled [of "extnID ?e @ [0]" n buf] assms(4,5,6)
    by simp
  have b: "int_to_size (int (Suc (length (extnID ?e)))) = Suc (length (extnID ?e))"
    using assms(4,6) by (intro int_to_size_int) simp
  show ?thesis
    unfolding gnutls_x509_crl_get_extension_info_def
    by (simp add: f r b node_extnID_def node_critical_def read_critical asn1_error_defs
          bytes_of_def del: asn1_read_value.simps of_nat_add of_nat_Suc)
qed


lemma get_extension_data_filled:
  assumes "0 \<le> indx" and "indx < 2 ^ 31 - 1"
    and "indx < int (length (tbs_crlExtensions (crl h)))"
    and "length (extnValue (tbs_crlExtensions (crl h) ! nat indx)) \<le> n"
    and "n \<le> length buf" and "n < 2 ^ 31"
  shows "gnutls_x509_crl_get_extension_data (Some h) indx (Some buf) n =
           Some (0,
                 Some (extnValue (tbs_crlExtensions (crl h) ! nat indx) @
                       drop (length (extnValue (tbs_crlExtensions (crl h) ! nat indx))) buf),
                 length (extnValue (tbs_crlExtensions (crl h) ! nat indx)))"
proof -
  let ?e = "tbs_crlExtensions (crl h) ! nat indx"
  have f: "find_extension (crl h) (ext_number indx) = Some ?e"
    using assms by (simp add: find_extension_below)
  have r: "asn1_read_value (Some (ASN1_OCTETS (extnValue ?e))) (Some buf) (size_to_int n) =
             Some (ASN1_SUCCESS, Some (extnValue ?e @ drop (length (extnValue ?e)) buf),
                   int (length (extnValue ?e)))"
    using put_value_filled [of "extnValue ?e" n buf] assms(4,5,6)
    by simp
  have b: "int_to_size (int (length (extnValue ?e))) = length (extnValue ?e)"
    using assms(4,6) by (intro int_to_size_int) simp
  show ?thesis
    unfolding gnutls_x509_crl_get_extension_data_def
    by (simp add: f r b node_extnValue_def asn1_error_defs del: asn1_read_value.simps)
qed

text \<open>
  Beyond the last extension a size of \<open>2 ^ 31\<close> is not left as it was: it comes back as
  \<open>2 ^ 64 - 2 ^ 31\<close>.
\<close>

lemma get_extension_info_exhausted_big:
  "gnutls_x509_crl_get_extension_info (Some sample_crl) 2 oid (2 ^ 31) =
     Some (GNUTLS_E_REQUESTED_DATA_NOT_AVAILABLE, oid, 2 ^ 64 - 2 ^ 31, None)"
proof -
  have k: "int (length (tbs_crlExtensions (crl sample_crl))) \<le> 2"
    by (simp add: sample_extensions)
  have f: "find_extension (crl sample_crl) (ext_number 2) = None"
    using find_extension_beyond [OF index_ranges(6) k] .
  have r: "asn1_read_value None oid (size_to_int (2 ^ 31)) =
             Some (ASN1_ELEMENT_NOT_FOUND, oid, size_to_int (2 ^ 31))"
    by (rule asn1_read_value.simps(1))
  show ?thesis
    unfolding gnutls_x509_crl_get_extension_info_def
    by (simp only: f r node_extnID_def size_round_trip_big option.simps prod.case
          option.map refl if_True)
qed

text \<open>
  C4, as stated: on a handle with \<open>k\<close> extensions the index-addressed access succeeds
  for every index below \<open>k\<close>. It fails for \<open>gnutls_x509_crl_get_extension_info\<close> when the
  caller's size is too small for the OID: on the sample handle, which has two
  extensions, index 0 with a size of 0 is answered with \<open>GNUTLS_E_SHORT_MEMORY_BUFFER\<close>
  and the required size 10. It fails as well when the size does not fit an \<open>int\<close>: a
  buffer of \<open>2 ^ 31\<close> bytes announced with its size has room for the OID, the size
  arrives at the adapter as a negative length, and the answer is
  \<open>GNUTLS_E_SHORT_MEMORY_BUFFER\<close> again.
\<close>

theorem get_extension_info_short_counterexample:
  "length (tbs_crlExtensions (crl sample_crl)) = 2 \<and>
   gnutls_x509_crl_get_extension_info (Some sample_crl) 0 (Some []) 0 =
     Some (GNUTLS_E_SHORT_MEMORY_BUFFER, Some [], 10, None) \<and>
   length big_buffer = 2 ^ 31 \<and>
   gnutls_x509_crl_get_extension_info (Some sample_crl) 0 (Some big_buffer) (2 ^ 31) =
     Some (GNUTLS_E_SHORT_MEMORY_BUFFER, Some big_buffer, 10, None) \<and>
   GNUTLS_E_SHORT_MEMORY_BUFFER \<noteq> 0"
proof -
  have f: "find_extension (crl sample_crl) (ext_number 0) =
             Some \<lparr>extnID = bytes_of ''2.5.29.35'', critical = False,
                   extnValue = [0x30, 0x03, 0x80, 0x01, 0x07]\<rparr>"
    using find_extension_below [OF index_ranges(1) index_ranges(2), of "crl sample_crl"]
    by (simp add: sample_extensions)
  have t: "int_to_size 10 = 10"
    by (simp add: int_to_size_def)
  have a: "gnutls_x509_crl_get_extension_info (Some sample_crl) 0 (Some []) 0 =
             Some (GNUTLS_E_SHORT_MEMORY_BUFFER, Some [], 10, None)"
    unfolding gnutls_x509_crl_get_extension_info_def
    by (simp add: f t node_extnID_def put_value_def size_to_int_def asn1_error_defs
          gnutls_asn2err_def gnutls_error_defs bytes_of_def)
  have b: "gnutls_x509_crl_get_extension_info (Some sample_crl) 0 (Some big_buffer) (2 ^ 31) =
             Some (GNUTLS_E_SHORT_MEMORY_BUFFER, Some big_buffer, 10, None)"
    unfolding gnutls_x509_crl_get_extension_info_def
    by (simp add: f t node_extnID_def put_value_def size_to_int_def asn1_error_defs
          gnutls_asn2err_def gnutls_error_defs bytes_of_def)
  show ?thesis
    using a b by (simp add: sample_extensions length_big_buffer gnutls_error_defs)
qed

text \<open>
  C4, amended: on a handle with \<open>k\<close> extensions and for an index in the range of
  \<open>int\<close>, the index-addressed access succeeds for every index from 0 to \<open>k - 1\<close> when
  the caller's buffer has room for the value (the OID string with its NUL for
  \<open>gnutls_x509_crl_get_extension_info\<close>, the raw value for
  \<open>gnutls_x509_crl_get_extension_data\<close>) and the announced size is below \<open>2 ^ 31\<close>: the
  value is copied, the size is set to its length and, for the info, the critical flag
  is returned. For the index \<open>k\<close> and every index beyond, both return
  \<open>GNUTLS_E_REQUESTED_DATA_NOT_AVAILABLE\<close> and leave the buffer as it was; the size
  comes back as the \<open>int\<close> it was narrowed to, which is the size itself when it is below
  \<open>2 ^ 31\<close>. Below \<open>k\<close> neither returns that code, whatever the buffer and the size, so
  that it ends a loop over all extensions.
\<close>

theorem extension_enumeration:
  assumes "0 \<le> indx" and "indx < 2 ^ 31 - 1"
  shows "(indx < int (length (tbs_crlExtensions (crl h))) \<and>
            length (extnID (tbs_crlExtensions (crl h) ! nat indx)) + 1 \<le> n \<and>
            n \<le> length buf \<and> n < 2 ^ 31 \<longrightarrow>
            gnutls_x509_crl_get_extension_info (Some h) indx (Some buf) n =
              Some (0,
                    Some (extnID (tbs_crlExtensions (crl h) ! nat indx) @ [0] @
                          drop (length (extnID (tbs_crlExtensions (crl h) ! nat indx)) + 1) buf),
                    length (extnID (tbs_crlExtensions (crl h) ! nat indx)) + 1,
                    Some (if critical (tbs_crlExtensions (crl h) ! nat indx) then 1 else 0))) \<and>
         (indx < int (length (tbs_crlExtensions (crl h))) \<and>
            length (extnValue (tbs_crlExtensions (crl h) ! nat indx)) \<le> n \<and>
            n \<le> length buf \<and> n < 2 ^ 31 \<longrightarrow>
            gnutls_x509_crl_get_extension_data (Some h) indx (Some buf) n =
              Some (0,
                    Some (extnValue (tbs_crlExtensions (crl h) ! nat indx) @
                          drop (length (extnValue (tbs_crlExtensions (crl h) ! nat indx))) buf),
                    length (extnValue (tbs_crlExtensions (crl h) ! nat indx)))) \<and>
         (int (length (tbs_crlExtensions (crl h))) \<le> indx \<longrightarrow>
            gnutls_x509_crl_get_extension_info (Some h) indx oid n =
              Some (GNUTLS_E_REQUESTED_DATA_NOT_AVAILABLE, oid, int_to_size (size_to_int n), None) \<and>
            gnutls_x509_crl_get_extension_data (Some h) indx oid n =
              Some (GNUTLS_E_REQUESTED_DATA_NOT_AVAILABLE, oid, int_to_size (size_to_int n)) \<and>
            (n < 2 ^ 31 \<longrightarrow> int_to_size (size_to_int n) = n)) \<and>
         (indx < int (length (tbs_crlExtensions (crl h))) \<longrightarrow>
            (\<forall>r. gnutls_x509_crl_get_extension_info (Some h) indx oid n = Some r \<longrightarrow>
                   fst r \<noteq> GNUTLS_E_REQUESTED_DATA_NOT_AVAILABLE) \<and>
            (\<forall>r. gnutls_x509_crl_get_extension_data (Some h) indx oid n = Some r \<longrightarrow>
                   fst r \<noteq> GNUTLS_E_REQUESTED_DATA_NOT_AVAILABLE))"
proof (intro conjI impI allI)
  assume a: "indx < int (length (tbs_crlExtensions (crl h))) \<and>
             length (extnID (tbs_crlExtensions (crl h) ! nat indx)) + 1 \<le> n \<and>
             n \<le> length buf \<and> n < 2 ^ 31"
  show "gnutls_x509_crl_get_extension_info (Some h) indx (Some buf) n =
          Some (0,
                Some (extnID (tbs_crlExtensions (crl h) ! nat indx) @ [0] @
                      drop (length (extnID (tbs_crlExtensions (crl h) ! nat indx)) + 1) buf),
                length (extnID (tbs_crlExtensions (crl h) ! nat indx)) + 1,
                Some (if critical (tbs_crlExtensions (crl h) ! nat indx) then 1 else 0))"
    using a by (intro get_extension_info_filled assms) simp_all
next
  assume a: "indx < int (length (tbs_crlExtensions (crl h))) \<and>
             length (extnValue (tbs_crlExtensions (crl h) ! nat indx)) \<le> n \<and>
             n \<le> length buf \<and> n < 2 ^ 31"
  show "gnutls_x509_crl_get_extension_data (Some h) indx (Some buf) n =
          Some (0,
                Some (extnValue (tbs_crlExtensions (crl h) ! nat indx) @
                      drop (length (extnValue (tbs_crlExtensions (crl h) ! nat indx))) buf),
                length (extnValue (tbs_crlExtensions (crl h) ! nat indx)))"
    using a by (intro get_extension_data_filled assms) simp_all
next
  assume a: "int (length (tbs_crlExtensions (crl h))) \<le> indx"
  have f: "find_extension (crl h) (ext_number indx) = None"
    using assms a by (simp add: find_extension_beyond)
  show "gnutls_x509_crl_get_extension_info (Some h) indx oid n =
          Some (GNUTLS_E_REQUESTED_DATA_NOT_AVAILABLE, oid, int_to_size (size_to_int n), None)"
    by (simp add: gnutls_x509_crl_get_extension_info_def f node_extnID_def asn1_error_defs)
  show "gnutls_x509_crl_get_extension_data (Some h) indx oid n =
          Some (GNUTLS_E_REQUESTED_DATA_NOT_AVAILABLE, oid, int_to_size (size_to_int n))"
    by (simp add: gnutls_x509_crl_get_extension_data_def f node_extnValue_def asn1_error_defs)
next
  assume "n < 2 ^ 31"
  then show "int_to_size (size_to_int n) = n"
    by (rule size_round_trip)
next
  fix r
  assume a: "indx < int (length (tbs_crlExtensions (crl h)))"
    and b: "gnutls_x509_crl_get_extension_info (Some h) indx oid n = Some r"
  show "fst r \<noteq> GNUTLS_E_REQUESTED_DATA_NOT_AVAILABLE"
    using info_below_not_exhausted [OF assms a b] by (auto simp: gnutls_error_defs)
next
  fix r
  assume a: "indx < int (length (tbs_crlExtensions (crl h)))"
    and b: "gnutls_x509_crl_get_extension_data (Some h) indx oid n = Some r"
  show "fst r \<noteq> GNUTLS_E_REQUESTED_DATA_NOT_AVAILABLE"
    using data_below_not_exhausted [OF assms a b] by (auto simp: gnutls_error_defs)
qed

theorem extension_enumeration_witness:
  "gnutls_x509_crl_get_extension_info (Some sample_crl) 1 (Some (replicate 12 7)) 12 =
     Some (0, Some (bytes_of ''2.5.29.20'' @ [0, 7, 7]), 10, Some 0) \<and>
   gnutls_x509_crl_get_extension_data (Some sample_crl) 0 (Some (replicate 6 7)) 6 =
     Some (0, Some [0x30, 0x03, 0x80, 0x01, 0x07, 7], 5) \<and>
   gnutls_x509_crl_get_extension_info (Some sample_crl) 2 (Some (replicate 12 7)) 12 =
     Some (GNUTLS_E_REQUESTED_DATA_NOT_AVAILABLE, Some (replicate 12 7), 12, None) \<and>
   gnutls_x509_crl_get_extension_data (Some sample_crl) 2 (Some (replicate 12 7)) 12 =
     Some (GNUTLS_E_REQUESTED_DATA_NOT_AVAILABLE, Some (replicate 12 7), 12) \<and>
   gnutls_x509_crl_get_extension_info (Some sample_crl) 1 None 0 =
     Some (GNUTLS_E_SHORT_MEMORY_BUFFER, None, 10, None) \<and>
   fst (the (gnutls_x509_crl_get_extension_info (Some sample_crl) 1 None 0)) \<noteq>
     GNUTLS_E_REQUESTED_DATA_NOT_AVAILABLE"
proof -
  have l: "length (bytes_of ''2.5.29.20'') = 9"
    by (simp add: bytes_of_def)
  have pa: "1 < int (length (tbs_crlExtensions (crl sample_crl))) \<and>
            length (extnID (tbs_crlExtensions (crl sample_crl) ! nat 1)) + 1 \<le> 12 \<and>
            12 \<le> length (replicate 12 (7 :: byte)) \<and> (12 :: nat) < 2 ^ 31"
    by (simp add: sample_extensions l)
  have a: "gnutls_x509_crl_get_extension_info (Some sample_crl) 1 (Some (replicate 12 7)) 12 =
             Some (0, Some (bytes_of ''2.5.29.20'' @ [0, 7, 7]), 10, Some 0)"
    using extension_enumeration
            [OF index_ranges(3) index_ranges(4), of sample_crl 12 "replicate 12 7",
             THEN conjunct1, THEN mp, OF pa]
    by (simp add: sample_extensions l numeral_eq_Suc)
  have pb: "0 < int (length (tbs_crlExtensions (crl sample_crl))) \<and>
            length (extnValue (tbs_crlExtensions (crl sample_crl) ! nat 0)) \<le> 6 \<and>
            6 \<le> length (replicate 6 (7 :: byte)) \<and> (6 :: nat) < 2 ^ 31"
    by (simp add: sample_extensions)
  have b: "gnutls_x509_crl_get_extension_data (Some sample_crl) 0 (Some (replicate 6 7)) 6 =
             Some (0, Some [0x30, 0x03, 0x80, 0x01, 0x07, 7], 5)"
    using extension_enumeration
            [OF index_ranges(1) index_ranges(2), of sample_crl 6 "replicate 6 7",
             THEN conjunct2, THEN conjunct1, THEN mp, OF pb]
    by (simp add: sample_extensions numeral_eq_Suc)
  have k: "int (length (tbs_crlExtensions (crl sample_crl))) \<le> 2"
    by (simp add: sample_extensions)
  have s: "(12::nat) < 2 ^ 31"
    by simp
  note c0 = extension_enumeration
            [OF index_ranges(5) index_ranges(6),
             where h = sample_crl and n = 12 and oid = "Some (replicate 12 7)",
             THEN conjunct2, THEN conjunct2, THEN conjunct1, THEN mp, OF k]
  have c: "gnutls_x509_crl_get_extension_info (Some sample_crl) 2 (Some (replicate 12 7)) 12 =
             Some (GNUTLS_E_REQUESTED_DATA_NOT_AVAILABLE, Some (replicate 12 7), 12, None) \<and>
           gnutls_x509_crl_get_extension_data (Some sample_crl) 2 (Some (replicate 12 7)) 12 =
             Some (GNUTLS_E_REQUESTED_DATA_NOT_AVAILABLE, Some (replicate 12 7), 12)"
    using c0 [THEN conjunct1] c0 [THEN conjunct2, THEN conjunct1]
      c0 [THEN conjunct2, THEN conjunct2, THEN mp, OF s]
    by simp
  have k1: "1 < int (length (tbs_crlExtensions (crl sample_crl)))"
    by (simp add: sample_extensions)
  have e: "gnutls_x509_crl_get_extension_info (Some sample_crl) 1 None 0 =
             Some (GNUTLS_E_SHORT_MEMORY_BUFFER, None, 10, None)"
    using get_extension_info_short [OF index_ranges(3) index_ranges(4) k1, of 0 None]
    by (simp add: sample_extensions l)
  have d: "fst (the (gnutls_x509_crl_get_extension_info (Some sample_crl) 1 None 0)) \<noteq>
             GNUTLS_E_REQUESTED_DATA_NOT_AVAILABLE"
    using extension_enumeration
            [OF index_ranges(3) index_ranges(4),
             where h = sample_crl and n = 0 and oid = None,
             THEN conjunct2, THEN conjunct2, THEN conjunct2, THEN mp, OF k1, THEN conjunct1,
             THEN spec, THEN mp, OF e]
    by (simp add: e)
  show ?thesis
    using a b c d e by blast
qed

subsection \<open>Authority Key Identifier\<close>

lemma get_extension_aki:
  "gnutls_x509_crl_get_extension (crl h) (bytes_of ''2.5.29.35'') 0 =
     (case aki_extensions h of
        [] \<Rightarrow> (GNUTLS_E_REQUESTED_DATA_NOT_AVAILABLE, [], 0)
      | e # es \<Rightarrow> (0, extnValue e, if critical e then 1 else 0))"
  by (simp add: gnutls_x509_crl_get_extension_def aki_extensions_def Let_def split: list.splits)

lemma get_authority_key_id_absent:
  assumes "aki_extensions h = [] \<or> (\<exists>e es. aki_extensions h = e # es \<and> extnValue e = [])"
  shows "fst (get_authority_key_id A (Some h)) = GNUTLS_E_REQUESTED_DATA_NOT_AVAILABLE"
  using assms
  by (auto simp add: get_authority_key_id_def get_extension_aki gnutls_error_defs)

lemma get_authority_key_id_decoded:
  assumes "aki_extensions h = e # es" and "extnValue e \<noteq> []"
    and "create_AuthorityKeyIdentifier A = ASN1_SUCCESS"
    and "decode_AuthorityKeyIdentifier A (extnValue e) = (ASN1_SUCCESS, t)"
  shows "get_authority_key_id A (Some h) = (0, Some t, Some (if critical e then 1 else 0))"
  using assms
  by (simp add: get_authority_key_id_def get_extension_aki)

lemma aki_extensions_sample:
  "aki_extensions sample_crl =
     [\<lparr>extnID = bytes_of ''2.5.29.35'', critical = False,
       extnValue = [0x30, 0x03, 0x80, 0x01, 0x07]\<rparr>]"
  by (simp add: aki_extensions_def sample_crl_def bytes_of_def)

lemma aki_extensions_sample_gn_serial:
  "aki_extensions sample_crl_gn_serial =
     [\<lparr>extnID = bytes_of ''2.5.29.35'', critical = True,
       extnValue = [0x30, 0x0A, 0xA1, 0x05, 0x82, 0x03, 0x61, 0x2E, 0x62, 0x82, 0x01, 0x09]\<rparr>]"
  by (simp add: aki_extensions_def sample_crl_gn_serial_def)

lemma decode_aki_sample:
  "decode_AuthorityKeyIdentifier sample_adapter [0x30, 0x03, 0x80, 0x01, 0x07] =
     (ASN1_SUCCESS,
      \<lparr>keyIdentifier = Some (ASN1_OCTETS [0x07]), authorityCertIssuer = [],
       authorityCertSerialNumber = None\<rparr>)"
  "decode_AuthorityKeyIdentifier sample_adapter
     [0x30, 0x0A, 0xA1, 0x05, 0x82, 0x03, 0x61, 0x2E, 0x62, 0x82, 0x01, 0x09] =
     (ASN1_SUCCESS,
      \<lparr>keyIdentifier = None, authorityCertIssuer = [(1, bytes_of ''a.b'')],
       authorityCertSerialNumber = Some (ASN1_OCTETS [0x09])\<rparr>)"
  "create_AuthorityKeyIdentifier sample_adapter = ASN1_SUCCESS"
  by (simp_all add: sample_adapter_def)

lemma get_authority_key_id_sample:
  "get_authority_key_id sample_adapter (Some sample_crl) =
     (0, Some \<lparr>keyIdentifier = Some (ASN1_OCTETS [0x07]), authorityCertIssuer = [],
               authorityCertSerialNumber = None\<rparr>, Some 0)"
  using get_authority_key_id_decoded
          [OF aki_extensions_sample _ decode_aki_sample(3), of _ ] decode_aki_sample(1)
  by simp


lemma get_authority_key_id_filled:
  assumes "aki_extensions h = e # es" and "extnValue e \<noteq> []"
    and "create_AuthorityKeyIdentifier A = ASN1_SUCCESS"
    and "decode_AuthorityKeyIdentifier A (extnValue e) = (ASN1_SUCCESS, t)"
    and "keyIdentifier t = Some (ASN1_OCTETS kid)"
    and "length kid \<le> n" and "n \<le> length buf" and "n < 2 ^ 31"
  shows "gnutls_x509_crl_get_authority_key_id A (Some h) (Some buf) n =
           Some (0, Some (kid @ drop (length kid) buf), length kid,
                 Some (if critical e then 1 else 0))"
proof -
  have g: "get_authority_key_id A (Some h) = (0, Some t, Some (if critical e then 1 else 0))"
    using assms(1-4) by (rule get_authority_key_id_decoded)
  have r: "asn1_read_value (Some (ASN1_OCTETS kid)) (Some buf) (size_to_int n) =
             Some (ASN1_SUCCESS, Some (kid @ drop (length kid) buf), int (length kid))"
    using put_value_filled [of kid n buf] assms(6,7,8) by simp
  have b: "int_to_size (int (length kid)) = length kid"
    using assms(6,8) by (intro int_to_size_int) simp
  show ?thesis
    unfolding gnutls_x509_crl_get_authority_key_id_def
    by (simp add: g r b node_keyIdentifier_def assms(5) asn1_error_defs
          del: asn1_read_value.simps)
qed

text \<open>
  C6, as stated: when the extension is present with a plain \<open>keyIdentifier\<close> the plain
  accessor succeeds. It fails when the caller's size is too small for the identifier:
  on the sample handle, whose key identifier takes one octet, a size of 0 is answered
  with \<open>GNUTLS_E_SHORT_MEMORY_BUFFER\<close> and the required size 1. It fails as well when
  the size does not fit an \<open>int\<close>: a buffer of \<open>2 ^ 31\<close> bytes announced with its size is
  answered in the same way.
\<close>

theorem get_authority_key_id_short_counterexample:
  "keyIdentifier (snd (decode_AuthorityKeyIdentifier sample_adapter
      (extnValue (hd (aki_extensions sample_crl))))) = Some (ASN1_OCTETS [0x07]) \<and>
   gnutls_x509_crl_get_authority_key_id sample_adapter (Some sample_crl) (Some []) 0 =
     Some (GNUTLS_E_SHORT_MEMORY_BUFFER, Some [], 1, Some 0) \<and>
   length big_buffer = 2 ^ 31 \<and>
   gnutls_x509_crl_get_authority_key_id sample_adapter (Some sample_crl) (Some big_buffer)
       (2 ^ 31) =
     Some (GNUTLS_E_SHORT_MEMORY_BUFFER, Some big_buffer, 1, Some 0) \<and>
   GNUTLS_E_SHORT_MEMORY_BUFFER \<noteq> 0"
proof -
  have t: "int_to_size 1 = 1"
    by (simp add: int_to_size_def)
  have a: "gnutls_x509_crl_get_authority_key_id sample_adapter (Some sample_crl) (Some []) 0 =
             Some (GNUTLS_E_SHORT_MEMORY_BUFFER, Some [], 1, Some 0)"
    unfolding gnutls_x509_crl_get_authority_key_id_def
    by (simp add: get_authority_key_id_sample t node_keyIdentifier_def put_value_def
          size_to_int_def asn1_error_defs gnutls_asn2err_def gnutls_error_defs)
  have b: "gnutls_x509_crl_get_authority_key_id sample_adapter (Some sample_crl)
               (Some big_buffer) (2 ^ 31) =
             Some (GNUTLS_E_SHORT_MEMORY_BUFFER, Some big_buffer, 1, Some 0)"
    unfolding gnutls_x509_crl_get_authority_key_id_def
    by (simp add: get_authority_key_id_sample t node_keyIdentifier_def put_value_def
          size_to_int_def asn1_error_defs gnutls_asn2err_def gnutls_error_defs)
  show ?thesis
    using a b
    by (simp add: aki_extensions_sample decode_aki_sample(1) length_big_buffer
          gnutls_error_defs)
qed

text \<open>
  C6, amended: when the Authority Key Identifier extension (OID 2.5.29.35) is absent or
  its value is empty, both accessors return \<open>GNUTLS_E_REQUESTED_DATA_NOT_AVAILABLE\<close> and
  leave the caller's buffers and sizes as they were. When it is present and decodes to
  a structure without a \<open>keyIdentifier\<close> (the GeneralName and serial form),
  \<open>gnutls_x509_crl_get_authority_key_id\<close> returns \<open>GNUTLS_E_X509_UNSUPPORTED_EXTENSION\<close>
  whatever the buffer and the size; the buffer is left as it was, and the size comes
  back as the \<open>int\<close> it was narrowed to, which is the size itself when it is below
  \<open>2 ^ 31\<close>. When it decodes to a structure with a plain \<open>keyIdentifier\<close>, the caller's
  buffer has room for it and the announced size is below \<open>2 ^ 31\<close>, the accessor
  succeeds, copies the identifier and sets the size to its length.
\<close>

theorem authority_key_id_forms:
  "(aki_extensions h = [] \<or> (\<exists>e es. aki_extensions h = e # es \<and> extnValue e = []) \<longrightarrow>
      (\<exists>crit. gnutls_x509_crl_get_authority_key_id A (Some h) ident n =
         Some (GNUTLS_E_REQUESTED_DATA_NOT_AVAILABLE, ident, n, crit)) \<and>
      (\<exists>crit. gnutls_x509_crl_get_authority_key_gn_serial A (Some h) seq alt alt_size
                 serial serial_size =
         Some (GNUTLS_E_REQUESTED_DATA_NOT_AVAILABLE, alt, alt_size, None, serial, serial_size,
               crit))) \<and>
   (aki_extensions h = e # es \<and> extnValue e \<noteq> [] \<and>
    create_AuthorityKeyIdentifier A = ASN1_SUCCESS \<and>
    decode_AuthorityKeyIdentifier A (extnValue e) = (ASN1_SUCCESS, t) \<longrightarrow>
      (keyIdentifier t = None \<or> keyIdentifier t = Some ASN1_NO_VALUE \<longrightarrow>
         gnutls_x509_crl_get_authority_key_id A (Some h) ident n =
           Some (GNUTLS_E_X509_UNSUPPORTED_EXTENSION, ident, int_to_size (size_to_int n),
                 Some (if critical e then 1 else 0)) \<and>
         (n < 2 ^ 31 \<longrightarrow> int_to_size (size_to_int n) = n)) \<and>
      (keyIdentifier t = Some (ASN1_OCTETS kid) \<and> length kid \<le> n \<and> n \<le> length buf \<and>
       n < 2 ^ 31 \<longrightarrow>
         gnutls_x509_crl_get_authority_key_id A (Some h) (Some buf) n =
           Some (0, Some (kid @ drop (length kid) buf), length kid,
                 Some (if critical e then 1 else 0))))"
proof (intro conjI impI)
  assume a: "aki_extensions h = [] \<or> (\<exists>e es. aki_extensions h = e # es \<and> extnValue e = [])"
  obtain c2 crit where
    g: "get_authority_key_id A (Some h) = (GNUTLS_E_REQUESTED_DATA_NOT_AVAILABLE, c2, crit)"
    using get_authority_key_id_absent [OF a, of A]
    by (cases "get_authority_key_id A (Some h)") auto
  show "\<exists>crit. gnutls_x509_crl_get_authority_key_id A (Some h) ident n =
          Some (GNUTLS_E_REQUESTED_DATA_NOT_AVAILABLE, ident, n, crit)"
    by (simp add: gnutls_x509_crl_get_authority_key_id_def g) (simp add: gnutls_error_defs)
  show "\<exists>crit. gnutls_x509_crl_get_authority_key_gn_serial A (Some h) seq alt alt_size
                 serial serial_size =
          Some (GNUTLS_E_REQUESTED_DATA_NOT_AVAILABLE, alt, alt_size, None, serial, serial_size,
                crit)"
    by (simp add: gnutls_x509_crl_get_authority_key_gn_serial_def g) (simp add: gnutls_error_defs)
next
  assume a: "aki_extensions h = e # es \<and> extnValue e \<noteq> [] \<and>
             create_AuthorityKeyIdentifier A = ASN1_SUCCESS \<and>
             decode_AuthorityKeyIdentifier A (extnValue e) = (ASN1_SUCCESS, t)"
    and b: "keyIdentifier t = None \<or> keyIdentifier t = Some ASN1_NO_VALUE"
  have g: "get_authority_key_id A (Some h) = (0, Some t, Some (if critical e then 1 else 0))"
    using a by (simp add: get_authority_key_id_decoded)
  show "gnutls_x509_crl_get_authority_key_id A (Some h) ident n =
          Some (GNUTLS_E_X509_UNSUPPORTED_EXTENSION, ident, int_to_size (size_to_int n),
                Some (if critical e then 1 else 0))"
    using b
    by (auto simp add: gnutls_x509_crl_get_authority_key_id_def g node_keyIdentifier_def
          asn1_error_defs)
next
  assume "n < 2 ^ 31"
  then show "int_to_size (size_to_int n) = n"
    by (rule size_round_trip)
next
  assume a: "aki_extensions h = e # es \<and> extnValue e \<noteq> [] \<and>
             create_AuthorityKeyIdentifier A = ASN1_SUCCESS \<and>
             decode_AuthorityKeyIdentifier A (extnValue e) = (ASN1_SUCCESS, t)"
    and b: "keyIdentifier t = Some (ASN1_OCTETS kid) \<and> length kid \<le> n \<and> n \<le> length buf \<and>
            n < 2 ^ 31"
  show "gnutls_x509_crl_get_authority_key_id A (Some h) (Some buf) n =
          Some (0, Some (kid @ drop (length kid) buf), length kid,
                Some (if critical e then 1 else 0))"
    using a b by (intro get_authority_key_id_filled [where es = es and t = t]) simp_all
qed

theorem authority_key_id_forms_witness:
  "gnutls_x509_crl_get_authority_key_id sample_adapter (Some sample_crl) (Some [0, 0]) 2 =
     Some (0, Some [0x07, 0], 1, Some 0) \<and>
   gnutls_x509_crl_get_authority_key_id sample_adapter (Some sample_crl_gn_serial)
       (Some [0, 0]) 2 =
     Some (GNUTLS_E_X509_UNSUPPORTED_EXTENSION, Some [0, 0], 2, Some 1) \<and>
   (\<exists>crit. gnutls_x509_crl_get_authority_key_id sample_adapter
      (Some (sample_crl\<lparr>crl := (crl sample_crl)\<lparr>tbs_crlExtensions := []\<rparr>\<rparr>)) (Some [0, 0]) 2 =
     Some (GNUTLS_E_REQUESTED_DATA_NOT_AVAILABLE, Some [0, 0], 2, crit)) \<and>
   (\<exists>crit. gnutls_x509_crl_get_authority_key_gn_serial sample_adapter
      (Some (sample_crl\<lparr>crl := (crl sample_crl)\<lparr>tbs_crlExtensions := []\<rparr>\<rparr>)) 0
      (Some [0, 0]) 2 (Some [0]) 1 =
     Some (GNUTLS_E_REQUESTED_DATA_NOT_AVAILABLE, Some [0, 0], 2, None, Some [0], 1, crit))"
proof -
  let ?e = "\<lparr>extnID = bytes_of ''2.5.29.35'', critical = False,
             extnValue = [0x30, 0x03, 0x80, 0x01, 0x07]\<rparr>"
  let ?t = "\<lparr>keyIdentifier = Some (ASN1_OCTETS [0x07]), authorityCertIssuer = [],
             authorityCertSerialNumber = None\<rparr>"
  let ?eg = "\<lparr>extnID = bytes_of ''2.5.29.35'', critical = True,
              extnValue = [0x30, 0x0A, 0xA1, 0x05, 0x82, 0x03, 0x61, 0x2E, 0x62,
                           0x82, 0x01, 0x09]\<rparr>"
  let ?tg = "\<lparr>keyIdentifier = None, authorityCertIssuer = [(1, bytes_of ''a.b'')],
              authorityCertSerialNumber = Some (ASN1_OCTETS [0x09])\<rparr>"
  let ?h0 = "sample_crl\<lparr>crl := (crl sample_crl)\<lparr>tbs_crlExtensions := []\<rparr>\<rparr>"
  have p: "aki_extensions sample_crl = ?e # [] \<and> extnValue ?e \<noteq> [] \<and>
           create_AuthorityKeyIdentifier sample_adapter = ASN1_SUCCESS \<and>
           decode_AuthorityKeyIdentifier sample_adapter (extnValue ?e) = (ASN1_SUCCESS, ?t)"
    by (simp add: aki_extensions_sample decode_aki_sample)
  have q: "keyIdentifier ?t = Some (ASN1_OCTETS [0x07]) \<and> length [0x07 :: byte] \<le> 2 \<and>
           (2 :: nat) \<le> length [0 :: byte, 0] \<and> (2 :: nat) < 2 ^ 31"
    by simp
  have a: "gnutls_x509_crl_get_authority_key_id sample_adapter (Some sample_crl) (Some [0, 0]) 2 =
             Some (0, Some [0x07, 0], 1, Some 0)"
    using authority_key_id_forms
            [where h = sample_crl and A = sample_adapter and e = ?e and es = "[]" and t = ?t
               and kid = "[0x07]" and n = 2 and buf = "[0, 0]",
             THEN conjunct2, THEN mp, OF p, THEN conjunct2, THEN mp, OF q]
    by simp
  have pg: "aki_extensions sample_crl_gn_serial = ?eg # [] \<and> extnValue ?eg \<noteq> [] \<and>
            create_AuthorityKeyIdentifier sample_adapter = ASN1_SUCCESS \<and>
            decode_AuthorityKeyIdentifier sample_adapter (extnValue ?eg) = (ASN1_SUCCESS, ?tg)"
    by (simp add: aki_extensions_sample_gn_serial decode_aki_sample)
  have qg: "keyIdentifier ?tg = None \<or> keyIdentifier ?tg = Some ASN1_NO_VALUE"
    by simp
  have s: "(2 :: nat) < 2 ^ 31"
    by simp
  note g0 = authority_key_id_forms
            [where h = sample_crl_gn_serial and A = sample_adapter and e = ?eg and es = "[]"
               and t = ?tg and n = 2 and ident = "Some [0, 0]",
             THEN conjunct2, THEN mp, OF pg, THEN conjunct1, THEN mp, OF qg]
  have g: "gnutls_x509_crl_get_authority_key_id sample_adapter (Some sample_crl_gn_serial)
               (Some [0, 0]) 2 =
             Some (GNUTLS_E_X509_UNSUPPORTED_EXTENSION, Some [0, 0], 2, Some 1)"
    using g0 [THEN conjunct1] g0 [THEN conjunct2, THEN mp, OF s]
    by simp
  have z: "aki_extensions ?h0 = [] \<or> (\<exists>e es. aki_extensions ?h0 = e # es \<and> extnValue e = [])"
    by (simp add: aki_extensions_def)
  note z0 = authority_key_id_forms
            [where h = ?h0 and A = sample_adapter and ident = "Some [0, 0]" and n = 2
               and seq = 0 and alt = "Some [0, 0]" and alt_size = 2 and serial = "Some [0]"
               and serial_size = 1,
             THEN conjunct1, THEN mp, OF z]
  have b: "\<exists>crit. gnutls_x509_crl_get_authority_key_id sample_adapter (Some ?h0) (Some [0, 0]) 2 =
             Some (GNUTLS_E_REQUESTED_DATA_NOT_AVAILABLE, Some [0, 0], 2, crit)"
    by (rule z0 [THEN conjunct1])
  have c: "\<exists>crit. gnutls_x509_crl_get_authority_key_gn_serial sample_adapter (Some ?h0) 0
             (Some [0, 0]) 2 (Some [0]) 1 =
             Some (GNUTLS_E_REQUESTED_DATA_NOT_AVAILABLE, Some [0, 0], 2, None, Some [0], 1, crit)"
    by (rule z0 [THEN conjunct2])
  show ?thesis
    using a g b c by blast
qed

subsection \<open>Size negotiation\<close>












lemma get_authority_key_id_sample_gn_serial:
  "get_authority_key_id sample_adapter (Some sample_crl_gn_serial) =
     (0, Some \<lparr>keyIdentifier = None, authorityCertIssuer = [(1, bytes_of ''a.b'')],
               authorityCertSerialNumber = Some (ASN1_OCTETS [0x09])\<rparr>, Some 1)"
  using get_authority_key_id_decoded
          [OF aki_extensions_sample_gn_serial _ decode_aki_sample(3), of _ ]
        decode_aki_sample(2)
  by simp





subsection \<open>The bulk importer: scanning\<close>

declare pem_loop.simps [simp del]

lemma PEM_CRL_SEP_bytes:
  "PEM_CRL_SEP = [45, 45, 45, 45, 45, 66, 69, 71, 73, 78, 32, 88, 53, 48, 57, 32, 67, 82, 76]"
  by (simp add: PEM_CRL_SEP_def bytes_of_def)

lemma memmem_None_iff: "memmem hay needle = None \<longleftrightarrow> \<not> sublist needle hay"
  by (induction hay) (auto simp: sublist_Cons_right)

lemma memmem_prefix: "prefix needle hay \<Longrightarrow> memmem hay needle = Some 0"
  by (cases hay) auto

text \<open>
  C10: when the input of a PEM call holds no X509 CRL boundary marker anywhere,
  \<open>gnutls_x509_crl_list_import\<close> returns \<open>GNUTLS_E_BASE64_DECODING_ERROR\<close>; the
  handle array and the capacity are as the caller passed them, and nothing was created
  or freed: the memory differs only by the record of this call.
\<close>

theorem list_import_no_marker:
  assumes "\<not> sublist PEM_CRL_SEP dat"
  shows "gnutls_x509_crl_list_import A m crls crl_max dat GNUTLS_X509_FMT_PEM flags =
           (GNUTLS_E_BASE64_DECODING_ERROR, crls, crl_max,
            m\<lparr>import_calls := import_calls m @ [(length crls, crl_max, flags)]\<rparr>)"
proof -
  have "memmem dat PEM_CRL_SEP = None"
    using assms by (simp add: memmem_None_iff)
  then show ?thesis
    by (simp add: gnutls_x509_crl_list_import_def Let_def)
qed

theorem list_import_no_marker_witness:
  "\<not> sublist PEM_CRL_SEP (bytes_of ''no CRL here'') \<and>
   gnutls_x509_crl_list_import sample_adapter empty_memory [None] 1 (bytes_of ''no CRL here'')
     GNUTLS_X509_FMT_PEM 0 =
     (GNUTLS_E_BASE64_DECODING_ERROR, [None], 1,
      \<lparr>heap = [], inits = 0, bad_frees = [], import_calls = [(1, 1, 0)]\<rparr>)"
proof -
  have n: "\<not> sublist PEM_CRL_SEP (bytes_of ''no CRL here'')"
    using sublist_length_le [of PEM_CRL_SEP "bytes_of ''no CRL here''"]
    by (auto simp: PEM_CRL_SEP_bytes bytes_of_def)
  show ?thesis
    using n list_import_no_marker [OF n, of sample_adapter empty_memory "[None]" 1 0]
    by (simp add: empty_memory_def)
qed

subsection \<open>The bulk importer: DER input\<close>

lemma length_heap_init:
  "gnutls_x509_crl_init A m = (ret, p, m') \<Longrightarrow> length (heap m') \<le> Suc (length (heap m))"
  by (auto simp add: gnutls_x509_crl_init_def Let_def split: if_splits)

lemma length_heap_import:
  "gnutls_x509_crl_import A m p dat format = (ret, m') \<Longrightarrow> length (heap m') = length (heap m)"
  by (auto simp add: gnutls_x509_crl_import_def split: option.splits prod.splits if_splits)

lemma length_heap_deinit: "length (heap (gnutls_x509_crl_deinit m p)) \<le> length (heap m)"
  by (simp add: gnutls_x509_crl_deinit_def split: option.splits)

lemma length_heap_foldl_deinit:
  "length (heap (foldl gnutls_x509_crl_deinit m ps)) \<le> length (heap m)"
proof (induction ps arbitrary: m)
  case Nil
  then show ?case by simp
next
  case (Cons p ps)
  have "length (heap (foldl gnutls_x509_crl_deinit (gnutls_x509_crl_deinit m p) ps))
          \<le> length (heap (gnutls_x509_crl_deinit m p))"
    by (rule Cons.IH)
  also have "\<dots> \<le> length (heap m)"
    by (rule length_heap_deinit)
  finally show ?case by simp
qed

lemma length_heap_deinit_all: "length (heap (deinit_all m crls n)) \<le> length (heap m)"
  by (simp add: deinit_all_def length_heap_foldl_deinit)

text \<open>
  C8, as stated: with a capacity of at least 1 a DER call decodes exactly one CRL and
  returns 1. It fails when the buffer does not decode: with the capacity 1 and a
  buffer that the decoder rejects, the call returns the decoder's error, and the handle
  it had created is destroyed again.
\<close>

theorem list_import_der_undecodable_counterexample:
  "gnutls_x509_crl_list_import sample_adapter empty_memory [None] 1 [0xFF]
     GNUTLS_X509_FMT_DER 0 =
     (GNUTLS_E_ASN1_DER_ERROR, [Some 0], 1,
      \<lparr>heap = [], inits = 1, bad_frees = [], import_calls = [(1, 1, 0)]\<rparr>) \<and>
   GNUTLS_E_ASN1_DER_ERROR \<noteq> 1"
  by (simp add: gnutls_x509_crl_list_import_def Let_def gnutls_x509_crl_init_def
        gnutls_x509_crl_import_def gnutls_x509_crl_deinit_def deinit_all_def sample_adapter_def
        empty_memory_def asn1_error_defs gnutls_asn2err_def gnutls_error_defs)

text \<open>
  C8, amended: for a DER call, a capacity below 1 is answered with
  \<open>GNUTLS_E_SHORT_MEMORY_BUFFER\<close>, the capacity set to 1, and no handle is created;
  otherwise, when the handle can be created and the buffer decodes, exactly one CRL
  is decoded into the new handle \<open>crls[0]\<close>, the capacity is set to 1 and the call
  returns 1; when the buffer does not decode, the call returns the decoder's error,
  leaves the capacity as it was and destroys the handle it had created. In every case
  a DER call leaves at most one handle more than it found.
\<close>

theorem list_import_der:
  "(crl_max < 1 \<longrightarrow>
      gnutls_x509_crl_list_import A m crls crl_max dat GNUTLS_X509_FMT_DER flags =
        (GNUTLS_E_SHORT_MEMORY_BUFFER, crls, 1,
         m\<lparr>import_calls := import_calls m @ [(length crls, crl_max, flags)]\<rparr>)) \<and>
   (1 \<le> crl_max \<and> wf_memory m \<and> calloc_ok A (inits m) \<and>
    create_CertificateList A (inits m) = ASN1_SUCCESS \<and>
    decode_CertificateList A dat = (ASN1_SUCCESS, t) \<longrightarrow>
      gnutls_x509_crl_list_import A m crls crl_max dat GNUTLS_X509_FMT_DER flags =
        (1, crls[0 := Some (inits m)], 1,
         m\<lparr>import_calls := import_calls m @ [(length crls, crl_max, flags)], inits := Suc (inits m),
           heap := heap m @ [(inits m, \<lparr>crl = t\<rparr>)]\<rparr>)) \<and>
   (1 \<le> crl_max \<and> 0 < length crls \<and> wf_memory m \<and> calloc_ok A (inits m) \<and>
    create_CertificateList A (inits m) = ASN1_SUCCESS \<and>
    decode_CertificateList A dat = (e, t) \<and> e \<noteq> ASN1_SUCCESS \<longrightarrow>
      gnutls_x509_crl_list_import A m crls crl_max dat GNUTLS_X509_FMT_DER flags =
        (gnutls_asn2err e, crls[0 := Some (inits m)], crl_max,
         m\<lparr>import_calls := import_calls m @ [(length crls, crl_max, flags)],
           inits := Suc (inits m)\<rparr>)) \<and>
   length (heap (snd (snd (snd
     (gnutls_x509_crl_list_import A m crls crl_max dat GNUTLS_X509_FMT_DER flags)))))
     \<le> Suc (length (heap m))"
proof (intro conjI impI)
  assume "crl_max < 1"
  then show "gnutls_x509_crl_list_import A m crls crl_max dat GNUTLS_X509_FMT_DER flags =
               (GNUTLS_E_SHORT_MEMORY_BUFFER, crls, 1,
                m\<lparr>import_calls := import_calls m @ [(length crls, crl_max, flags)]\<rparr>)"
    by (simp add: gnutls_x509_crl_list_import_def Let_def)
next
  assume a: "1 \<le> crl_max \<and> wf_memory m \<and> calloc_ok A (inits m) \<and>
             create_CertificateList A (inits m) = ASN1_SUCCESS \<and>
             decode_CertificateList A dat = (ASN1_SUCCESS, t)"
  have fresh: "map (\<lambda>(b, h). if b = inits m then (b, h\<lparr>crl := t\<rparr>) else (b, h)) (heap m) = heap m"
    using a by (auto simp: wf_memory_def list_all_iff intro!: map_idI)
  show "gnutls_x509_crl_list_import A m crls crl_max dat GNUTLS_X509_FMT_DER flags =
          (1, crls[0 := Some (inits m)], 1,
           m\<lparr>import_calls := import_calls m @ [(length crls, crl_max, flags)], inits := Suc (inits m),
             heap := heap m @ [(inits m, \<lparr>crl = t\<rparr>)]\<rparr>)"
    using a fresh
    by (simp add: gnutls_x509_crl_list_import_def Let_def gnutls_x509_crl_init_def
          gnutls_x509_crl_import_def asn1_error_defs)
next
  assume a: "1 \<le> crl_max \<and> 0 < length crls \<and> wf_memory m \<and> calloc_ok A (inits m) \<and>
             create_CertificateList A (inits m) = ASN1_SUCCESS \<and>
             decode_CertificateList A dat = (e, t) \<and> e \<noteq> ASN1_SUCCESS"
  have fresh: "filter (\<lambda>(b, h). b \<noteq> inits m) (heap m) = heap m"
    using a by (auto simp: wf_memory_def list_all_iff intro!: filter_True)
  obtain c cs where crls: "crls = c # cs"
    using a by (cases crls) auto
  show "gnutls_x509_crl_list_import A m crls crl_max dat GNUTLS_X509_FMT_DER flags =
          (gnutls_asn2err e, crls[0 := Some (inits m)], crl_max,
           m\<lparr>import_calls := import_calls m @ [(length crls, crl_max, flags)],
             inits := Suc (inits m)\<rparr>)"
    using a fresh gnutls_asn2err_negative [of e]
    by (simp add: gnutls_x509_crl_list_import_def Let_def gnutls_x509_crl_init_def
          gnutls_x509_crl_import_def gnutls_x509_crl_deinit_def deinit_all_def crls
          asn1_error_defs)
next
  let ?m = "m\<lparr>import_calls := import_calls m @ [(length crls, crl_max, flags)]\<rparr>"
  obtain ret p m1 where i: "gnutls_x509_crl_init A ?m = (ret, p, m1)"
    using prod_cases3 by blast
  obtain ret' m2 where j: "gnutls_x509_crl_import A m1 p dat GNUTLS_X509_FMT_DER = (ret', m2)"
    by (cases "gnutls_x509_crl_import A m1 p dat GNUTLS_X509_FMT_DER") auto
  have l1: "length (heap m1) \<le> Suc (length (heap m))"
    using length_heap_init [OF i] by simp
  have l2: "length (heap m2) \<le> Suc (length (heap m))"
    using length_heap_import [OF j] l1 by simp
  have d1: "length (heap (deinit_all m1 (crls[0 := p]) 1)) \<le> Suc (length (heap m))"
    using length_heap_deinit_all [of m1 "crls[0 := p]" 1] l1 by linarith
  have d2: "length (heap (deinit_all m2 (crls[0 := p]) 1)) \<le> Suc (length (heap m))"
    using length_heap_deinit_all [of m2 "crls[0 := p]" 1] l2 by linarith
  show "length (heap (snd (snd (snd
          (gnutls_x509_crl_list_import A m crls crl_max dat GNUTLS_X509_FMT_DER flags)))))
          \<le> Suc (length (heap m))"
    using i j l2 d1 d2
    by (simp add: gnutls_x509_crl_list_import_def Let_def)
qed

theorem list_import_der_witness:
  "gnutls_x509_crl_list_import sample_adapter empty_memory [] 0 [0x30] GNUTLS_X509_FMT_DER 0 =
     (GNUTLS_E_SHORT_MEMORY_BUFFER, [], 1,
      \<lparr>heap = [], inits = 0, bad_frees = [], import_calls = [(0, 0, 0)]\<rparr>) \<and>
   gnutls_x509_crl_list_import sample_adapter empty_memory [None] 1 [0x30] GNUTLS_X509_FMT_DER 0 =
     (1, [Some 0], 1,
      \<lparr>heap = [(0, sample_crl)], inits = 1, bad_frees = [], import_calls = [(1, 1, 0)]\<rparr>)"
proof -
  have p: "1 \<le> (1 :: nat) \<and> wf_memory empty_memory \<and> calloc_ok sample_adapter (inits empty_memory) \<and>
           create_CertificateList sample_adapter (inits empty_memory) = ASN1_SUCCESS \<and>
           decode_CertificateList sample_adapter [0x30] = (ASN1_SUCCESS, crl sample_crl)"
    by (simp add: wf_memory_def empty_memory_def sample_adapter_def)
  have z: "(0 :: nat) < 1"
    by simp
  have a: "gnutls_x509_crl_list_import sample_adapter empty_memory [] 0 [0x30]
             GNUTLS_X509_FMT_DER 0 =
             (GNUTLS_E_SHORT_MEMORY_BUFFER, [], 1,
              \<lparr>heap = [], inits = 0, bad_frees = [], import_calls = [(0, 0, 0)]\<rparr>)"
    using list_import_der
            [where A = sample_adapter and m = empty_memory and crls = "[]" and crl_max = 0
               and dat = "[0x30]" and flags = 0,
             THEN conjunct1, THEN mp, OF z]
    by (simp add: empty_memory_def)
  have b: "gnutls_x509_crl_list_import sample_adapter empty_memory [None] 1 [0x30]
             GNUTLS_X509_FMT_DER 0 =
             (1, [Some 0], 1,
              \<lparr>heap = [(0, sample_crl)], inits = 1, bad_frees = [], import_calls = [(1, 1, 0)]\<rparr>)"
    using list_import_der
            [where A = sample_adapter and m = empty_memory and crls = "[None]" and crl_max = 1
               and dat = "[0x30]" and flags = 0 and t = "crl sample_crl",
             THEN conjunct2, THEN conjunct1, THEN mp, OF p]
    by (simp add: empty_memory_def sample_crl_def)
  show ?thesis
    using a b by blast
qed

subsection \<open>The bulk importer: rollback\<close>

text \<open>
  C1 says that a call of \<open>gnutls_x509_crl_list_import\<close> that returns an error has
  deinitialised every handle it initialised. The code does not: at \<open>error:\<close> it
  deinitialises \<open>crls[0 .. count - 1]\<close>, and a block that fails to decode was imported
  into \<open>crls[count]\<close>, before \<open>count++\<close>. On a PEM input of two blocks, the second of
  which does not decode, with room for two handles: the call returns the decoder's
  error, the first handle (address 0) is gone from the memory, and the second (address
  1) is still live.
\<close>

theorem list_import_decode_failure_leaks:
  "gnutls_x509_crl_list_import sample_adapter empty_memory [None, None] 2
     (PEM_CRL_SEP @ [0x30] @ PEM_CRL_SEP @ [0xFF]) GNUTLS_X509_FMT_PEM 0 =
   (GNUTLS_E_ASN1_DER_ERROR, [Some 0, Some 1], 2,
    \<lparr>heap = [(1, \<lparr>crl = empty_CertificateList\<rparr>)], inits = 2, bad_frees = [],
     import_calls = [(2, 2, 0)]\<rparr>)"
  by (simp add: gnutls_x509_crl_list_import_def Let_def PEM_CRL_SEP_bytes pem_loop.simps
        copy_block_def next_block_def gnutls_x509_crl_init_def gnutls_x509_crl_import_def
        gnutls_x509_crl_deinit_def deinit_all_def sample_adapter_def empty_memory_def
        asn1_error_defs gnutls_asn2err_def gnutls_error_defs
        GNUTLS_X509_CRT_LIST_IMPORT_FAIL_IF_EXCEED_def)

text \<open>
  The same holds for every collaborator and every input whose first block fails in the
  PEM codec: the handle created for that block stays live, since \<open>count\<close> is still 0 at
  \<open>error:\<close>.
\<close>

lemma list_import_first_block_failure_keeps_handle:
  assumes "memmem dat PEM_CRL_SEP = Some k" and "0 < crl_max"
    and "calloc_ok A (inits m)" and "create_CertificateList A (inits m) = ASN1_SUCCESS"
    and "fbase64_decode A (drop k dat) = (r, d)" and "r < 0"
  shows "gnutls_x509_crl_list_import A m crls crl_max dat GNUTLS_X509_FMT_PEM flags =
           (r, crls[0 := Some (inits m)], crl_max,
            m\<lparr>import_calls := import_calls m @ [(length crls, crl_max, flags)],
              inits := Suc (inits m),
              heap := heap m @ [(inits m, \<lparr>crl = empty_CertificateList\<rparr>)]\<rparr>)"
proof -
  let ?m = "m\<lparr>import_calls := import_calls m @ [(length crls, crl_max, flags)]\<rparr>"
  let ?m' = "m\<lparr>import_calls := import_calls m @ [(length crls, crl_max, flags)],
               inits := Suc (inits m),
               heap := heap m @ [(inits m, \<lparr>crl = empty_CertificateList\<rparr>)]\<rparr>"
  have c: "copy_block A crls 0 (drop k dat) ?m = Inl (r, crls[0 := Some (inits m)], ?m')"
    using assms
    by (simp add: copy_block_def gnutls_x509_crl_init_def gnutls_x509_crl_import_def Let_def
          asn1_error_defs)
  have l: "pem_loop A flags crl_max (drop k dat) 0 False crls ?m =
             Loop_error r 0 (crls[0 := Some (inits m)]) ?m'"
    using assms(2) by (subst pem_loop.simps) (simp add: c)
  show ?thesis
    using assms(1) by (simp add: gnutls_x509_crl_list_import_def Let_def l deinit_all_def)
qed

text \<open>
  The strict abort does not pass through \<open>error:\<close> either. With the strict flag, room
  for one handle and an input of two blocks that decode, the call returns
  \<open>GNUTLS_E_SHORT_MEMORY_BUFFER\<close> with the required capacity 2, and the handle it
  created is still live.
\<close>

lemma list_import_strict_abort_keeps_handle:
  "gnutls_x509_crl_list_import sample_adapter empty_memory [None] 1
     (PEM_CRL_SEP @ [0x30] @ PEM_CRL_SEP @ [0x30]) GNUTLS_X509_FMT_PEM
     GNUTLS_X509_CRT_LIST_IMPORT_FAIL_IF_EXCEED =
   (GNUTLS_E_SHORT_MEMORY_BUFFER, [Some 0], 2,
    \<lparr>heap = [(0, sample_crl)], inits = 1, bad_frees = [],
     import_calls = [(1, 1, GNUTLS_X509_CRT_LIST_IMPORT_FAIL_IF_EXCEED)]\<rparr>)"
  by (simp add: gnutls_x509_crl_list_import_def Let_def PEM_CRL_SEP_bytes pem_loop.simps
        copy_block_def next_block_def gnutls_x509_crl_init_def gnutls_x509_crl_import_def
        sample_adapter_def empty_memory_def sample_crl_def asn1_error_defs gnutls_error_defs
        GNUTLS_X509_CRT_LIST_IMPORT_FAIL_IF_EXCEED_def)

subsection \<open>The bulk importer: the calls of the auto-growing entry point\<close>

lemma import_calls_init:
  "gnutls_x509_crl_init A m = (ret, p, m') \<Longrightarrow> import_calls m' = import_calls m"
  by (auto simp add: gnutls_x509_crl_init_def Let_def split: if_splits)

lemma import_calls_import:
  "gnutls_x509_crl_import A m p dat format = (ret, m') \<Longrightarrow> import_calls m' = import_calls m"
  by (auto simp add: gnutls_x509_crl_import_def split: option.splits prod.splits if_splits)

lemma import_calls_deinit: "import_calls (gnutls_x509_crl_deinit m p) = import_calls m"
  by (simp add: gnutls_x509_crl_deinit_def split: option.splits)

lemma import_calls_foldl_deinit:
  "import_calls (foldl gnutls_x509_crl_deinit m ps) = import_calls m"
  by (induction ps arbitrary: m) (simp_all add: import_calls_deinit)

lemma import_calls_deinit_all: "import_calls (deinit_all m crls n) = import_calls m"
  by (simp add: deinit_all_def import_calls_foldl_deinit)

lemma import_calls_copy_block:
  "copy_block A crls count rest m = r \<Longrightarrow>
   import_calls (case r of Inl (ret, crls', m') \<Rightarrow> m' | Inr (crls', m') \<Rightarrow> m') = import_calls m"
  by (auto simp add: copy_block_def split: prod.splits if_splits)
     (metis import_calls_init import_calls_import)+

lemma import_calls_pem_loop:
  "import_calls (loop_memory (pem_loop A flags crl_max rest count nocopy crls m)) =
     import_calls m"
proof (induction A flags crl_max rest count nocopy crls m rule: pem_loop.induct)
  case (1 A flags crl_max rest count nocopy crls m)
  show ?case
  proof (cases "count \<ge> crl_max \<and> flags AND GNUTLS_X509_CRT_LIST_IMPORT_FAIL_IF_EXCEED = 0")
    case True
    then show ?thesis
      by (subst pem_loop.simps) simp
  next
    case False
    define nocopy' where "nocopy' = (nocopy \<or> count \<ge> crl_max)"
    define step where
      "step = (if \<not> nocopy' then copy_block A crls count rest m else Inr (crls, m))"
    have unfold: "pem_loop A flags crl_max rest count nocopy crls m =
        (case step of
           Inl (ret, crls', m') \<Rightarrow> Loop_error ret count crls' m'
         | Inr (crls', m') \<Rightarrow>
             (case next_block rest of
                None \<Rightarrow> Loop_done (Suc count) nocopy' crls' m'
              | Some rest' \<Rightarrow> pem_loop A flags crl_max rest' (Suc count) nocopy' crls' m'))"
      unfolding step_def nocopy'_def using False
      by (subst pem_loop.simps) (simp only: if_not_P if_False Let_def)
    have step_calls:
      "import_calls (case step of Inl (ret, crls', m') \<Rightarrow> m' | Inr (crls', m') \<Rightarrow> m') =
         import_calls m"
      using import_calls_copy_block [of A crls count rest m] by (simp add: step_def)
    show ?thesis
    proof (cases step)
      case (Inl e)
      then show ?thesis
        using step_calls unfold by (auto split: prod.splits)
    next
      case (Inr v)
      obtain crls' m' where v: "v = (crls', m')"
        by (cases v)
      have m': "import_calls m' = import_calls m"
        using step_calls Inr v by simp
      show ?thesis
      proof (cases "next_block rest")
        case None
        then show ?thesis
          using unfold Inr v m' by simp
      next
        case (Some rest')
        have s1: "(if \<not> nocopy' then copy_block A crls count rest m else Inr (crls, m)) = Inr v"
          using Inr by (simp only: step_def)
        have s2: "(crls', m') = v"
          using v by simp
        have "import_calls
                (loop_memory (pem_loop A flags crl_max rest' (Suc count) nocopy' crls' m')) =
              import_calls m'"
          by (rule "1.IH" [OF False nocopy'_def s1 s2 Some])
        then show ?thesis
          using unfold Inr v m' Some by simp
      qed
    qed
  qed
qed

lemma import_calls_list_import:
  "import_calls (snd (snd (snd
     (gnutls_x509_crl_list_import A m crls crl_max dat format flags)))) =
   import_calls m @ [(length crls, crl_max, flags)]"
proof -
  let ?m = "m\<lparr>import_calls := import_calls m @ [(length crls, crl_max, flags)]\<rparr>"
  have loop: "import_calls (loop_memory (pem_loop A flags crl_max rest 0 False crls ?m)) =
                import_calls m @ [(length crls, crl_max, flags)]" for rest
    by (simp add: import_calls_pem_loop)
  show ?thesis
  proof (cases format)
    case GNUTLS_X509_FMT_DER
    then show ?thesis
      by (auto simp add: gnutls_x509_crl_list_import_def Let_def import_calls_deinit_all
            split: prod.splits dest!: import_calls_init import_calls_import)
  next
    case GNUTLS_X509_FMT_PEM
    show ?thesis
    proof (cases "memmem dat PEM_CRL_SEP")
      case None
      then show ?thesis
        using GNUTLS_X509_FMT_PEM by (simp add: gnutls_x509_crl_list_import_def Let_def)
    next
      case (Some k)
      then show ?thesis
        using GNUTLS_X509_FMT_PEM loop [of "drop k dat"]
        by (cases "pem_loop A flags crl_max (drop k dat) 0 False crls ?m")
           (simp_all add: gnutls_x509_crl_list_import_def Let_def import_calls_deinit_all)
    qed
  qed
qed

text \<open>An input of more blocks than the default capacity, for the examples.\<close>

lemma pem_blocks_Suc: "pem_blocks (Suc k) = PEM_CRL_SEP @ 0x30 # pem_blocks k"
  by (simp add: pem_blocks_def)

lemma memmem_pem_blocks: "memmem (pem_blocks (Suc k)) PEM_CRL_SEP = Some 0"
  by (rule memmem_prefix) (simp add: pem_blocks_Suc)

lemma next_block_last: "next_block (pem_blocks (Suc 0)) = None"
  by (simp add: next_block_def pem_blocks_def PEM_CRL_SEP_bytes)

lemma next_block_more: "next_block (pem_blocks (Suc (Suc k))) = Some (pem_blocks (Suc k))"
  by (simp add: next_block_def pem_blocks_Suc) (simp add: PEM_CRL_SEP_bytes)

lemma copy_block_sample:
  "\<exists>crls' m'. copy_block sample_adapter crls count (pem_blocks (Suc k)) m = Inr (crls', m')"
proof -
  have "fbase64_decode sample_adapter (pem_blocks (Suc k)) = (1, [0x30])"
    by (simp add: sample_adapter_def pem_blocks_Suc nth_append)
  moreover have "decode_CertificateList sample_adapter [0x30] = (ASN1_SUCCESS, crl sample_crl)"
    by (simp add: sample_adapter_def)
  ultimately show ?thesis
    by (simp add: copy_block_def gnutls_x509_crl_init_def gnutls_x509_crl_import_def Let_def)
       (simp add: sample_adapter_def asn1_error_defs)
qed

lemma pem_loop_sample_strict:
  "\<exists>crls' m'. pem_loop sample_adapter GNUTLS_X509_CRT_LIST_IMPORT_FAIL_IF_EXCEED crl_max
      (pem_blocks (Suc k)) count nocopy crls m =
    Loop_done (count + Suc k) (nocopy \<or> crl_max \<le> count + k) crls' m'"
proof (induction k arbitrary: count nocopy crls m)
  case 0
  obtain crls' m' where
    c: "copy_block sample_adapter crls count (pem_blocks (Suc 0)) m = Inr (crls', m')"
    using copy_block_sample by blast
  show ?case
    by (subst pem_loop.simps)
       (simp add: GNUTLS_X509_CRT_LIST_IMPORT_FAIL_IF_EXCEED_def Let_def c next_block_last)
next
  case (Suc k)
  obtain crls' m' where
    c: "copy_block sample_adapter crls count (pem_blocks (Suc (Suc k))) m = Inr (crls', m')"
    using copy_block_sample by blast
  have eq: "(nocopy \<or> crl_max \<le> count \<or> crl_max \<le> Suc (count + k)) =
            (nocopy \<or> crl_max \<le> Suc (count + k))"
    by auto
  show ?case
    using Suc.IH [of "Suc count" "nocopy \<or> crl_max \<le> count" crls' m']
          Suc.IH [of "Suc count" "nocopy \<or> crl_max \<le> count" crls m]
    by (subst pem_loop.simps)
       (auto simp add: GNUTLS_X509_CRT_LIST_IMPORT_FAIL_IF_EXCEED_def Let_def c next_block_more eq)
qed

lemma list_import_sample_strict_short:
  "\<exists>crls' m'. gnutls_x509_crl_list_import sample_adapter m crls 1024 (pem_blocks 1025)
      GNUTLS_X509_FMT_PEM GNUTLS_X509_CRT_LIST_IMPORT_FAIL_IF_EXCEED =
    (GNUTLS_E_SHORT_MEMORY_BUFFER, crls', 1025, m')"
proof -
  let ?m = "m\<lparr>import_calls :=
                import_calls m @
                [(length crls, 1024, GNUTLS_X509_CRT_LIST_IMPORT_FAIL_IF_EXCEED)]\<rparr>"
  have mm: "memmem (pem_blocks 1025) PEM_CRL_SEP = Some 0"
    using memmem_pem_blocks [of 1024] by simp
  obtain crls' m' where
    l: "pem_loop sample_adapter GNUTLS_X509_CRT_LIST_IMPORT_FAIL_IF_EXCEED 1024
          (pem_blocks 1025) 0 False crls ?m = Loop_done 1025 True crls' m'"
    using pem_loop_sample_strict [of 1024 1024 0 False crls ?m] by auto
  show ?thesis
    by (simp add: gnutls_x509_crl_list_import_def Let_def mm l)
qed

text \<open>
  C3, as stated: after a capacity-exceeded signal the auto-growing importer retries
  with the strict flag set. The retry receives the caller's flags instead: for an
  input of 1025 blocks and the flags 0, the first call has an array and a capacity of
  1024 and the strict flag, the retry has an array and a capacity of 1025 and the
  flags 0.
\<close>

theorem list_import2_retry_flags_counterexample:
  "import_calls (snd (snd (snd (gnutls_x509_crl_list_import2 sample_adapter empty_memory
      (pem_blocks 1025) GNUTLS_X509_FMT_PEM 0)))) =
   [(1024, 1024, GNUTLS_X509_CRT_LIST_IMPORT_FAIL_IF_EXCEED), (1025, 1025, 0)] \<and>
   (0 :: 32 word) AND GNUTLS_X509_CRT_LIST_IMPORT_FAIL_IF_EXCEED = 0"
proof -
  obtain crls' m' where first:
    "gnutls_x509_crl_list_import sample_adapter empty_memory (replicate 1024 None) 1024
       (pem_blocks 1025) GNUTLS_X509_FMT_PEM GNUTLS_X509_CRT_LIST_IMPORT_FAIL_IF_EXCEED =
     (GNUTLS_E_SHORT_MEMORY_BUFFER, crls', 1025, m')"
    using list_import_sample_strict_short by blast
  obtain ret2 crls2 init2 m2 where second:
    "gnutls_x509_crl_list_import sample_adapter m'
       (take 1025 crls' @ replicate (1025 - length crls') None) 1025 (pem_blocks 1025)
       GNUTLS_X509_FMT_PEM 0 = (ret2, crls2, init2, m2)"
    using prod_cases4 by blast
  have m': "import_calls m' = [(1024, 1024, GNUTLS_X509_CRT_LIST_IMPORT_FAIL_IF_EXCEED)]"
    using import_calls_list_import [of sample_adapter empty_memory "replicate 1024 None" 1024
            "pem_blocks 1025" GNUTLS_X509_FMT_PEM GNUTLS_X509_CRT_LIST_IMPORT_FAIL_IF_EXCEED] first
    by (simp add: empty_memory_def)
  have m2: "import_calls m2 = import_calls m' @ [(1025, 1025, 0)]"
    using import_calls_list_import [of sample_adapter m'
            "take 1025 crls' @ replicate (1025 - length crls') None" 1025
            "pem_blocks 1025" GNUTLS_X509_FMT_PEM 0] second
    by simp
  have ok: "malloc_ok sample_adapter" "realloc_ok sample_adapter"
    by (simp_all add: sample_adapter_def)
  show ?thesis
    using first second m' m2 ok
    by (simp add: gnutls_x509_crl_list_import2_def)
qed

text \<open>
  C3, amended: \<open>gnutls_x509_crl_list_import2\<close>, once its array of the default capacity
  1024 is allocated, calls the fixed-capacity importer with that capacity and the
  strict flag set; when that call signals \<open>GNUTLS_E_SHORT_MEMORY_BUFFER\<close> and the
  array can be reallocated, it retries exactly once, with an array of exactly the
  reported required capacity, that capacity, and the caller's flags. It makes no other
  call, so there is at most one regrowth and retry per call.
\<close>

theorem list_import2_calls:
  assumes "malloc_ok A"
  shows "import_calls (snd (snd (snd (gnutls_x509_crl_list_import2 A m dat format flags)))) =
           import_calls m @
           (1024, 1024, GNUTLS_X509_CRT_LIST_IMPORT_FAIL_IF_EXCEED) #
           (case gnutls_x509_crl_list_import A m (replicate 1024 None) 1024 dat format
                   GNUTLS_X509_CRT_LIST_IMPORT_FAIL_IF_EXCEED of
              (ret, crls, init, m1) \<Rightarrow>
                if ret = GNUTLS_E_SHORT_MEMORY_BUFFER \<and> realloc_ok A then [(init, init, flags)]
                else [])"
proof -
  obtain ret crls init m1 where first:
    "gnutls_x509_crl_list_import A m (replicate 1024 None) 1024 dat format
       GNUTLS_X509_CRT_LIST_IMPORT_FAIL_IF_EXCEED = (ret, crls, init, m1)"
    using prod_cases4 by blast
  have m1: "import_calls m1 =
              import_calls m @ [(1024, 1024, GNUTLS_X509_CRT_LIST_IMPORT_FAIL_IF_EXCEED)]"
    using import_calls_list_import [of A m "replicate 1024 None" 1024 dat format
            GNUTLS_X509_CRT_LIST_IMPORT_FAIL_IF_EXCEED] first
    by simp
  show ?thesis
  proof (cases "ret = GNUTLS_E_SHORT_MEMORY_BUFFER \<and> realloc_ok A")
    case True
    obtain ret' crls' init' m2 where second:
      "gnutls_x509_crl_list_import A m1 (take init crls @ replicate (init - length crls) None)
         init dat format flags = (ret', crls', init', m2)"
      using prod_cases4 by blast
    have m2: "import_calls m2 = import_calls m1 @ [(init, init, flags)]"
      using import_calls_list_import
              [of A m1 "take init crls @ replicate (init - length crls) None" init dat format
                  flags] second
      by simp
    show ?thesis
      using assms True first second m1 m2
      by (simp add: gnutls_x509_crl_list_import2_def)
  next
    case False
    then show ?thesis
      using assms first m1
      by (auto simp add: gnutls_x509_crl_list_import2_def)
  qed
qed

theorem list_import2_calls_witness:
  "malloc_ok sample_adapter \<and>
   import_calls (snd (snd (snd (gnutls_x509_crl_list_import2 sample_adapter empty_memory
      (pem_blocks 1025) GNUTLS_X509_FMT_PEM GNUTLS_X509_CRT_LIST_IMPORT_FAIL_IF_EXCEED)))) =
   [(1024, 1024, GNUTLS_X509_CRT_LIST_IMPORT_FAIL_IF_EXCEED),
    (1025, 1025, GNUTLS_X509_CRT_LIST_IMPORT_FAIL_IF_EXCEED)]"
proof -
  have ok: "malloc_ok sample_adapter"
    by (simp add: sample_adapter_def)
  have re: "realloc_ok sample_adapter"
    by (simp add: sample_adapter_def)
  obtain crls' m' where first:
    "gnutls_x509_crl_list_import sample_adapter empty_memory (replicate 1024 None) 1024
       (pem_blocks 1025) GNUTLS_X509_FMT_PEM GNUTLS_X509_CRT_LIST_IMPORT_FAIL_IF_EXCEED =
     (GNUTLS_E_SHORT_MEMORY_BUFFER, crls', 1025, m')"
    using list_import_sample_strict_short by blast
  show ?thesis
    using list_import2_calls [OF ok, of empty_memory "pem_blocks 1025" GNUTLS_X509_FMT_PEM
            GNUTLS_X509_CRT_LIST_IMPORT_FAIL_IF_EXCEED] ok re first
    by (simp add: empty_memory_def)
qed

end
